theory Spec2Isabelle
  imports Main "HOL-Library.Word"
begin

section \<open>The Key class of sotez (src/key.ts)\<close>

text \<open>
  \<^verbatim>\<open>key.ts\<close> defines one class, \<^verbatim>\<open>Key\<close>: a constructor that starts the asynchronous
  method \<^verbatim>\<open>initialize\<close>, the accessors \<^verbatim>\<open>publicKey\<close>, \<^verbatim>\<open>secretKey\<close> and
  \<^verbatim>\<open>publicKeyHash\<close>, and \<^verbatim>\<open>sign\<close> and \<^verbatim>\<open>verify\<close>. Everything cryptographic is done by
  imported code: \<^verbatim>\<open>libsodium-wrappers\<close>, \<^verbatim>\<open>pbkdf2\<close>, \<^verbatim>\<open>secp256k1\<close>, and the modules
  \<^verbatim>\<open>./utility\<close> and \<^verbatim>\<open>./constants\<close>. The model takes these imports as a parameter, a record
  of functions, and every theorem about the class holds for every such record.
\<close>

subsection \<open>Values\<close>

type_synonym byte = "8 word"
type_synonym bytes = "byte list"

text \<open>
  An argument that the source passes sometimes as a string and sometimes as a byte
  buffer (the salt of \<^verbatim>\<open>pbkdf2Sync\<close>, the signature of
  \<^verbatim>\<open>crypto_sign_verify_detached\<close>).
\<close>

datatype data = Text string | Bytes bytes

text \<open>An exception thrown inside an imported function, with its message.\<close>

datatype exn = Exn string

text \<open>
  The errors of \<^verbatim>\<open>key.ts\<close>, one constructor for each message of a \<^verbatim>\<open>throw new Error\<close>:
  \<^item> \<open>Fundraiser_without_passphrase\<close>: 'Fundraiser key provided without a passphrase.'
  \<^item> \<open>Invalid_prefix\<close>: 'Invalid prefix for a key encoding.' (thrown for a bad curve tag
    and for a bad pk/sk tag alike)
  \<^item> \<open>Invalid_length\<close>: 'Invalid length for a key encoding'
  \<^item> \<open>Encrypted_without_passphrase\<close>: 'Encrypted key provided without a passphrase.'
  \<^item> \<open>P256_not_supported\<close>: 'Curve P256 key is not yet supported.'
  \<^item> \<open>Invalid_key\<close>: 'Invalid key'
  \<^item> \<open>Secret_key_not_known\<close>: 'Secret key not known.'
  \<^item> \<open>Provided_curve_not_supported\<close>: 'Provided curve not supported'
  \<^item> \<open>Cannot_verify_without_public_key\<close>: 'Cannot verify without a public key'
  \<^item> \<open>Curves_mismatch\<close>: 'Signature and public key curves mismatch.'
  \<^item> \<open>Signature_invalid\<close>: 'Signature is invalid.'
  \<^item> \<open>Curve_not_supported c\<close>: the message built from the curve \<open>c\<close> in \<^verbatim>\<open>verify\<close>
  \<^item> \<open>Thrown x\<close>: an exception of an imported function that \<^verbatim>\<open>key.ts\<close> does not catch.
\<close>

datatype error =
    Fundraiser_without_passphrase
  | Invalid_prefix
  | Invalid_length
  | Encrypted_without_passphrase
  | P256_not_supported
  | Invalid_key
  | Secret_key_not_known
  | Provided_curve_not_supported
  | Cannot_verify_without_public_key
  | Curves_mismatch
  | Signature_invalid
  | Curve_not_supported string
  | Thrown exn

subsection \<open>The imported functions\<close>

text \<open>
  \<open>prefix\<close> is the table of \<^verbatim>\<open>./constants\<close> (a missing entry reads as \<^verbatim>\<open>undefined\<close>, here
  \<open>None\<close>); \<open>b58cencode\<close> to \<open>textDecode\<close> are the functions of \<^verbatim>\<open>./utility\<close>;
  \<open>normalize_NFKD\<close> is \<^verbatim>\<open>String.prototype.normalize('NFKD')\<close>; \<open>pbkdf2Sync\<close> is that of
  \<^verbatim>\<open>pbkdf2\<close>; the \<open>crypto_\<close> functions are those of \<^verbatim>\<open>libsodium-wrappers\<close>;
  \<open>publicKeyCreate\<close> is that of \<^verbatim>\<open>secp256k1\<close>. A function that can throw returns
  \<open>Inl\<close> of the exception. An argument that can be \<^verbatim>\<open>undefined\<close> at the call is an option.
\<close>

record provider =
  prefix :: "string \<Rightarrow> bytes option"
  b58cencode :: "bytes option \<Rightarrow> bytes option \<Rightarrow> exn + string"
  b58cdecode :: "string \<Rightarrow> bytes option \<Rightarrow> exn + bytes"
  hex2buf :: "string \<Rightarrow> exn + bytes"
  buf2hex :: "bytes \<Rightarrow> string"
  mergebuf :: "bytes \<Rightarrow> bytes \<Rightarrow> bytes"
  textEncode :: "string \<Rightarrow> bytes"
  textDecode :: "bytes \<Rightarrow> string"
  normalize_NFKD :: "string \<Rightarrow> string"
  pbkdf2Sync :: "data \<Rightarrow> data \<Rightarrow> nat \<Rightarrow> nat \<Rightarrow> string \<Rightarrow> exn + bytes"
  crypto_sign_seed_keypair :: "bytes \<Rightarrow> exn + bytes \<times> bytes"
  crypto_generichash :: "nat \<Rightarrow> bytes option \<Rightarrow> exn + bytes"
  crypto_sign_detached :: "bytes \<Rightarrow> bytes option \<Rightarrow> exn + bytes"
  crypto_sign_verify_detached :: "data \<Rightarrow> bytes \<Rightarrow> bytes \<Rightarrow> exn + bool"
  crypto_secretbox_open_easy :: "bytes \<Rightarrow> bytes \<Rightarrow> bytes \<Rightarrow> exn + bytes"
  publicKeyCreate :: "bytes \<Rightarrow> exn + bytes"

subsection \<open>The Key object\<close>

text \<open>
  The promise \<^verbatim>\<open>ready\<close>: pending until its \<^verbatim>\<open>resolve\<close> or \<^verbatim>\<open>reject\<close> is called.
\<close>

datatype promise = Pending | Fulfilled | Rejected error

text \<open>
  The fields of the class. \<open>f_publicKey\<close> stands for \<^verbatim>\<open>_publicKey\<close> and so on (a name
  cannot start with an underscore here). A field that the constructor does not assign is
  \<^verbatim>\<open>undefined\<close> until \<^verbatim>\<open>initialize\<close> assigns it: \<open>None\<close>.
\<close>

record Key =
  f_publicKey :: "bytes option"
  f_secretKey :: "bytes option"
  f_isSecret :: "bool option"
  f_isLedger :: bool
  f_ledgerPath :: string
  f_ledgerCurve :: nat
  ready :: promise
  curve :: "string option"

text \<open>JavaScript truthiness of an optional string: \<^verbatim>\<open>undefined\<close> and \<^verbatim>\<open>''\<close> are falsy.\<close>

definition truthy :: "string option \<Rightarrow> bool" where
  "truthy s = (case s of None \<Rightarrow> False | Some t \<Rightarrow> t \<noteq> [])"

text \<open>An optional string inside a template literal: \<^verbatim>\<open>`${s}`\<close>.\<close>

definition template :: "string option \<Rightarrow> string" where
  "template s = (case s of None \<Rightarrow> ''undefined'' | Some t \<Rightarrow> t)"

text \<open>
  The call \<^verbatim>\<open>ready()\<close> of the callback parameter, which is optional in the signature of
  \<^verbatim>\<open>initialize\<close>; calling \<^verbatim>\<open>undefined\<close> throws a TypeError.
\<close>

definition call :: "(Key \<Rightarrow> Key) option \<Rightarrow> Key \<Rightarrow> error option \<times> Key" where
  "call ready_fn k =
     (case ready_fn of
        None \<Rightarrow> (Some (Thrown (Exn ''ready is not a function'')), k)
      | Some f \<Rightarrow> (None, f k))"

subsection \<open>initialize\<close>

text \<open>
  \<^verbatim>\<open>initialize\<close> (lines 102 to 182) assigns the fields of \<^verbatim>\<open>this\<close> as it goes and either
  returns, after calling \<^verbatim>\<open>ready()\<close>, or throws. The model takes the object before the
  call and returns the error thrown (\<open>None\<close> when the method returns) with the object as
  the method leaves it, so that the assignments made before a throw are kept.
  \<^verbatim>\<open>await sodium.ready\<close> is taken to complete. Strings are lists of 8-bit characters;
  \<^verbatim>\<open>substr\<close>, \<^verbatim>\<open>substring\<close> and \<^verbatim>\<open>slice\<close> with constant bounds are \<open>take\<close> and
  \<open>drop\<close>. The variable \<^verbatim>\<open>key\<close> of the source holds first the string, then the decoded
  bytes (\<open>decoded\<close>), then the decrypted bytes (\<open>kb\<close>).
\<close>

definition initialize ::
  "provider \<Rightarrow> Key \<Rightarrow> string \<Rightarrow> string option \<Rightarrow> string option \<Rightarrow> (Key \<Rightarrow> Key) option
     \<Rightarrow> error option \<times> Key" where
  "initialize P k key passphrase email ready_fn =
    (if truthy email then
       (if \<not> truthy passphrase then (Some Fundraiser_without_passphrase, k)
        else
          (let salt = normalize_NFKD P
                        (textDecode P (textEncode P (template email @ template passphrase)))
           in case pbkdf2Sync P (Text key) (Text (''mnemonic'' @ salt)) 2048 64 ''sha512'' of
                Inl x \<Rightarrow> (Some (Thrown x), k)
              | Inr seed \<Rightarrow>
                  (case crypto_sign_seed_keypair P (take 32 seed) of
                     Inl x \<Rightarrow> (Some (Thrown x), k)
                   | Inr (publicKey, privateKey) \<Rightarrow>
                       call ready_fn
                         (k\<lparr>f_publicKey := Some publicKey, f_secretKey := Some privateKey,
                            curve := Some ''ed'', f_isSecret := Some True\<rparr>))))
     else
       (let k1 = k\<lparr>curve := Some (take 2 key)\<rparr> in
        if curve k1 \<notin> set [Some ''sp'', Some ''p2'', Some ''ed''] then (Some Invalid_prefix, k1)
        else if length key \<notin> set [54, 55, 88, 98] then (Some Invalid_length, k1)
        else
          (let encrypted = (take 1 (drop 2 key) = ''e'');
               publicOrSecret = (if encrypted then take 2 (drop 3 key) else take 2 (drop 2 key))
           in
           if publicOrSecret \<notin> set [''pk'', ''sk''] then (Some Invalid_prefix, k1)
           else
             (let k2 = k1\<lparr>f_isSecret := Some (publicOrSecret = ''sk'')\<rparr> in
              case (if f_isSecret k2 = Some True
                    then b58cdecode P key
                           (prefix P (template (curve k2) @ (if encrypted then ''e'' else '''') @ ''sk''))
                    else b58cdecode P key (prefix P (template (curve k2) @ ''pk''))) of
                Inl x \<Rightarrow> (Some (Thrown x), k2)
              | Inr decoded \<Rightarrow>
                  (case (if encrypted then
                           (if \<not> truthy passphrase then Inl Encrypted_without_passphrase
                            else
                              (case pbkdf2Sync P (Text (template passphrase)) (Bytes (take 8 decoded))
                                      32768 32 ''sha512'' of
                                 Inl x \<Rightarrow> Inl (Thrown x)
                               | Inr encryptionKey \<Rightarrow>
                                   (case crypto_secretbox_open_easy P (drop 8 decoded)
                                           (replicate 24 0) encryptionKey of
                                      Inl x \<Rightarrow> Inl (Thrown x)
                                    | Inr opened \<Rightarrow> Inr opened)))
                         else Inr decoded) of
                     Inl e \<Rightarrow> (Some e, k2)
                   | Inr kb \<Rightarrow>
                       (if f_isSecret k2 \<noteq> Some True
                        then call ready_fn (k2\<lparr>f_publicKey := Some kb, f_secretKey := None\<rparr>)
                        else
                          (let k3 = k2\<lparr>f_secretKey := Some kb\<rparr> in
                           if curve k3 = Some ''ed'' then
                             (if length kb = 64
                              then call ready_fn (k3\<lparr>f_publicKey := Some (drop 32 kb)\<rparr>)
                              else
                                (case crypto_sign_seed_keypair P kb of
                                   Inl x \<Rightarrow> (Some (Thrown x), k3)
                                 | Inr (publicKey, privateKey) \<Rightarrow>
                                     call ready_fn
                                       (k3\<lparr>f_publicKey := Some publicKey,
                                           f_secretKey := Some privateKey\<rparr>)))
                           else if curve k3 = Some ''sp'' then
                             (case publicKeyCreate P kb of
                                Inl x \<Rightarrow> (Some (Thrown x), k3)
                              | Inr pk \<Rightarrow> call ready_fn (k3\<lparr>f_publicKey := Some pk\<rparr>))
                           else if curve k3 = Some ''p2'' then (Some P256_not_supported, k3)
                           else (Some Invalid_key, k3))))))))"

subsection \<open>The constructor\<close>

text \<open>
  The constructor (lines 28 to 35) sets the three ledger fields and creates the promise
  \<^verbatim>\<open>ready\<close>, whose executor receives only \<^verbatim>\<open>resolve\<close> and calls
  \<^verbatim>\<open>this.initialize(key, passphrase, email, resolve)\<close>. \<^verbatim>\<open>initialize\<close> is an
  \<^verbatim>\<open>async\<close> function: a throw inside it rejects the promise that the call returns, which
  the executor drops; it does not reach the executor and does not touch \<^verbatim>\<open>this.ready\<close>.
  \<open>new_Key\<close> is the object once that call has run to its end, paired with the state of the
  dropped promise.
\<close>

definition fresh :: Key where
  "fresh = \<lparr>f_publicKey = None, f_secretKey = None, f_isSecret = None, f_isLedger = False,
            f_ledgerPath = ''44'/1729'/0'/0'' @ [CHR 0x27], f_ledgerCurve = 0,
            ready = Pending, curve = None\<rparr>"

definition resolve :: "Key \<Rightarrow> Key" where
  "resolve k = (if ready k = Pending then k\<lparr>ready := Fulfilled\<rparr> else k)"

definition new_Key :: "provider \<Rightarrow> string \<Rightarrow> string option \<Rightarrow> string option \<Rightarrow> Key \<times> promise" where
  "new_Key P key passphrase email =
     (case initialize P fresh key passphrase email (Some resolve) of
        (None, k) \<Rightarrow> (k, Fulfilled)
      | (Some e, k) \<Rightarrow> (k, Rejected e))"

subsection \<open>The ledger accessors\<close>

definition isLedger :: "Key \<Rightarrow> bool" where
  "isLedger k = f_isLedger k"

definition set_isLedger :: "bool \<Rightarrow> Key \<Rightarrow> Key" where
  "set_isLedger v k = k\<lparr>f_isLedger := v\<rparr>"

definition ledgerPath :: "Key \<Rightarrow> string" where
  "ledgerPath k = f_ledgerPath k"

definition set_ledgerPath :: "string \<Rightarrow> Key \<Rightarrow> Key" where
  "set_ledgerPath v k = k\<lparr>f_ledgerPath := v\<rparr>"

definition ledgerCurve :: "Key \<Rightarrow> nat" where
  "ledgerCurve k = f_ledgerCurve k"

definition set_ledgerCurve :: "nat \<Rightarrow> Key \<Rightarrow> Key" where
  "set_ledgerCurve v k = k\<lparr>f_ledgerCurve := v\<rparr>"

subsection \<open>publicKey, secretKey, publicKeyHash\<close>

text \<open>
  \<^verbatim>\<open>publicKey\<close> (line 66) is a single call of \<^verbatim>\<open>utility.b58cencode\<close> on the field and on the
  table entry named by the template \<^verbatim>\<open>`${this.curve}pk`\<close>.
\<close>

definition publicKey :: "provider \<Rightarrow> Key \<Rightarrow> error + string" where
  "publicKey P k =
     (case b58cencode P (f_publicKey k) (prefix P (template (curve k) @ ''pk'')) of
        Inl x \<Rightarrow> Inl (Thrown x)
      | Inr s \<Rightarrow> Inr s)"

text \<open>
  \<^verbatim>\<open>secretKey\<close> (lines 73 to 84). The field holds a byte buffer or \<^verbatim>\<open>undefined\<close>, and a
  buffer is truthy whatever its length, so \<^verbatim>\<open>!this._secretKey\<close> is the test for
  \<^verbatim>\<open>undefined\<close>.
\<close>

definition secretKey :: "provider \<Rightarrow> Key \<Rightarrow> error + string" where
  "secretKey P k =
     (case f_secretKey k of
        None \<Rightarrow> Inl Secret_key_not_known
      | Some key \<Rightarrow>
          (case (if curve k = Some ''ed''
                 then (case crypto_sign_seed_keypair P (take 32 key) of
                         Inl x \<Rightarrow> Inl (Thrown x)
                       | Inr (pub, privateKey) \<Rightarrow> Inr privateKey)
                 else Inr key) of
             Inl e \<Rightarrow> Inl e
           | Inr key' \<Rightarrow>
               (case b58cencode P (Some key') (prefix P (template (curve k) @ ''sk'')) of
                  Inl x \<Rightarrow> Inl (Thrown x)
                | Inr s \<Rightarrow> Inr s)))"

text \<open>
  \<^verbatim>\<open>publicKeyHash\<close> (lines 91 to 100): the object \<^verbatim>\<open>prefixMap\<close> has the three keys
  \<^verbatim>\<open>ed\<close>, \<^verbatim>\<open>sp\<close>, \<^verbatim>\<open>p2\<close>; any other curve, also \<^verbatim>\<open>undefined\<close>, reads \<^verbatim>\<open>undefined\<close>.
  The hash is computed before the encoder is called.
\<close>

definition prefixMap :: "provider \<Rightarrow> string option \<Rightarrow> bytes option" where
  "prefixMap P c =
     (if c = Some ''ed'' then prefix P ''tz1''
      else if c = Some ''sp'' then prefix P ''tz2''
      else if c = Some ''p2'' then prefix P ''tz3''
      else None)"

definition publicKeyHash :: "provider \<Rightarrow> Key \<Rightarrow> error + string" where
  "publicKeyHash P k =
     (let p = prefixMap P (curve k) in
      case crypto_generichash P 20 (f_publicKey k) of
        Inl x \<Rightarrow> Inl (Thrown x)
      | Inr h \<Rightarrow>
          (case b58cencode P (Some h) p of
             Inl x \<Rightarrow> Inl (Thrown x)
           | Inr s \<Rightarrow> Inr s))"

subsection \<open>sign and verify\<close>

text \<open>The object that \<^verbatim>\<open>sign\<close> returns: \<^verbatim>\<open>{ bytes, sig, edsig, sbytes }\<close>.\<close>

record signed =
  r_bytes :: string
  r_sig :: string
  r_edsig :: string
  r_sbytes :: string

text \<open>
  \<^verbatim>\<open>sign\<close> (lines 191 to 211). The parameter \<^verbatim>\<open>bytes\<close> is \<open>msg\<close> here. The field
  \<^verbatim>\<open>_secretKey\<close> goes to \<^verbatim>\<open>crypto_sign_detached\<close> as it is, \<^verbatim>\<open>undefined\<close> included.
\<close>

definition sign :: "provider \<Rightarrow> Key \<Rightarrow> string \<Rightarrow> bytes option \<Rightarrow> error + signed" where
  "sign P k msg watermark =
     (case hex2buf P msg of
        Inl x \<Rightarrow> Inl (Thrown x)
      | Inr bb0 \<Rightarrow>
          (let bb = (case watermark of None \<Rightarrow> bb0 | Some w \<Rightarrow> mergebuf P w bb0) in
           if curve k = Some ''ed'' then
             (case crypto_generichash P 32 (Some bb) of
                Inl x \<Rightarrow> Inl (Thrown x)
              | Inr digest \<Rightarrow>
                  (case crypto_sign_detached P digest (f_secretKey k) of
                     Inl x \<Rightarrow> Inl (Thrown x)
                   | Inr sg \<Rightarrow>
                       (case b58cencode P (Some sg) (prefix P ''edsig'') of
                          Inl x \<Rightarrow> Inl (Thrown x)
                        | Inr edsig \<Rightarrow>
                            (let sbytes = msg @ buf2hex P sg in
                             case b58cencode P (Some sg) (prefix P ''sig'') of
                               Inl x \<Rightarrow> Inl (Thrown x)
                             | Inr s \<Rightarrow>
                                 Inr \<lparr>r_bytes = msg, r_sig = s, r_edsig = edsig,
                                      r_sbytes = sbytes\<rparr>))))
           else Inl Provided_curve_not_supported))"

text \<open>
  \<^verbatim>\<open>verify\<close> (lines 219 to 240). The parameter \<^verbatim>\<open>signature\<close>, a string, goes to
  \<^verbatim>\<open>crypto_sign_verify_detached\<close> as it is, and the message is \<^verbatim>\<open>hex2buf(bytes)\<close>, computed
  outside the \<^verbatim>\<open>try\<close>. Every exception of the primitive becomes 'Signature is invalid.'.
\<close>

definition verify :: "provider \<Rightarrow> Key \<Rightarrow> string \<Rightarrow> string \<Rightarrow> error + bool" where
  "verify P k msg signature =
     (case f_publicKey k of
        None \<Rightarrow> Inl Cannot_verify_without_public_key
      | Some pk \<Rightarrow>
          if take 3 signature \<noteq> ''sig'' \<and> curve k \<noteq> Some (take 2 signature)
          then Inl Curves_mismatch
          else if curve k = Some ''ed'' then
            (case hex2buf P msg of
               Inl x \<Rightarrow> Inl (Thrown x)
             | Inr digest \<Rightarrow>
                 (case crypto_sign_verify_detached P (Text signature) digest pk of
                    Inl x \<Rightarrow> Inl Signature_invalid
                  | Inr b \<Rightarrow> Inr b))
          else Inl (Curve_not_supported (template (curve k))))"

subsection \<open>The steps of initialize\<close>

text \<open>
  The same function cut into its steps, for the proofs: the fundraiser branch (lines 105
  to 120), the two calls of \<^verbatim>\<open>b58cdecode\<close> (lines 141 to 145), the decryption (lines 147
  to 157), the derivation of the public key (lines 159 to 181), and the branch for an
  encoded key that chains them (lines 122 to 181). Lemma \<open>initialize_stages\<close> shows that
  \<open>initialize\<close> is their composition.
\<close>

definition fundraiser ::
  "provider \<Rightarrow> Key \<Rightarrow> string \<Rightarrow> string option \<Rightarrow> string option \<Rightarrow> (Key \<Rightarrow> Key) option
     \<Rightarrow> error option \<times> Key" where
  "fundraiser P k key passphrase email ready_fn =
     (if \<not> truthy passphrase then (Some Fundraiser_without_passphrase, k)
      else
        (case pbkdf2Sync P (Text key)
                (Text (''mnemonic'' @ normalize_NFKD P
                   (textDecode P (textEncode P (template email @ template passphrase)))))
                2048 64 ''sha512'' of
           Inl x \<Rightarrow> (Some (Thrown x), k)
         | Inr seed \<Rightarrow>
             (case crypto_sign_seed_keypair P (take 32 seed) of
                Inl x \<Rightarrow> (Some (Thrown x), k)
              | Inr (pub, priv) \<Rightarrow>
                  call ready_fn
                    (k\<lparr>f_publicKey := Some pub, f_secretKey := Some priv,
                       curve := Some ''ed'', f_isSecret := Some True\<rparr>))))"

definition decode :: "provider \<Rightarrow> Key \<Rightarrow> string \<Rightarrow> bool \<Rightarrow> exn + bytes" where
  "decode P k2 key encrypted =
     (if f_isSecret k2 = Some True
      then b58cdecode P key
             (prefix P (template (curve k2) @ (if encrypted then ''e'' else '''') @ ''sk''))
      else b58cdecode P key (prefix P (template (curve k2) @ ''pk'')))"

definition decrypt :: "provider \<Rightarrow> string option \<Rightarrow> bool \<Rightarrow> bytes \<Rightarrow> error + bytes" where
  "decrypt P passphrase encrypted decoded =
     (if encrypted then
        (if \<not> truthy passphrase then Inl Encrypted_without_passphrase
         else
           (case pbkdf2Sync P (Text (template passphrase)) (Bytes (take 8 decoded))
                   32768 32 ''sha512'' of
              Inl x \<Rightarrow> Inl (Thrown x)
            | Inr encryptionKey \<Rightarrow>
                (case crypto_secretbox_open_easy P (drop 8 decoded)
                        (replicate 24 0) encryptionKey of
                   Inl x \<Rightarrow> Inl (Thrown x)
                 | Inr opened \<Rightarrow> Inr opened)))
      else Inr decoded)"

definition derive ::
  "provider \<Rightarrow> Key \<Rightarrow> bytes \<Rightarrow> (Key \<Rightarrow> Key) option \<Rightarrow> error option \<times> Key" where
  "derive P k2 kb ready_fn =
     (if f_isSecret k2 \<noteq> Some True
      then call ready_fn (k2\<lparr>f_publicKey := Some kb, f_secretKey := None\<rparr>)
      else
        (let k3 = k2\<lparr>f_secretKey := Some kb\<rparr> in
         if curve k3 = Some ''ed'' then
           (if length kb = 64
            then call ready_fn (k3\<lparr>f_publicKey := Some (drop 32 kb)\<rparr>)
            else
              (case crypto_sign_seed_keypair P kb of
                 Inl x \<Rightarrow> (Some (Thrown x), k3)
               | Inr (pub, priv) \<Rightarrow>
                   call ready_fn
                     (k3\<lparr>f_publicKey := Some pub, f_secretKey := Some priv\<rparr>)))
         else if curve k3 = Some ''sp'' then
           (case publicKeyCreate P kb of
              Inl x \<Rightarrow> (Some (Thrown x), k3)
            | Inr pk \<Rightarrow> call ready_fn (k3\<lparr>f_publicKey := Some pk\<rparr>))
         else if curve k3 = Some ''p2'' then (Some P256_not_supported, k3)
         else (Some Invalid_key, k3)))"

definition encoded ::
  "provider \<Rightarrow> Key \<Rightarrow> string \<Rightarrow> string option \<Rightarrow> (Key \<Rightarrow> Key) option \<Rightarrow> error option \<times> Key" where
  "encoded P k key passphrase ready_fn =
       (let k1 = k\<lparr>curve := Some (take 2 key)\<rparr> in
        if curve k1 \<notin> set [Some ''sp'', Some ''p2'', Some ''ed''] then (Some Invalid_prefix, k1)
        else if length key \<notin> set [54, 55, 88, 98] then (Some Invalid_length, k1)
        else
          (let encrypted = (take 1 (drop 2 key) = ''e'');
               publicOrSecret = (if encrypted then take 2 (drop 3 key) else take 2 (drop 2 key))
           in
           if publicOrSecret \<notin> set [''pk'', ''sk''] then (Some Invalid_prefix, k1)
           else
             (let k2 = k1\<lparr>f_isSecret := Some (publicOrSecret = ''sk'')\<rparr> in
              case decode P k2 key encrypted of
                Inl x \<Rightarrow> (Some (Thrown x), k2)
              | Inr decoded \<Rightarrow>
                  (case decrypt P passphrase encrypted decoded of
                     Inl e \<Rightarrow> (Some e, k2)
                   | Inr kb \<Rightarrow> derive P k2 kb ready_fn))))"

subsection \<open>A concrete provider\<close>

text \<open>
  An instance of the imported functions on which the class can be run on concrete
  strings. The codec is that of \<^verbatim>\<open>bs58check\<close>: base58 text of the prefix, the payload
  and four check bytes, the first four bytes of a double SHA-256, which decoding
  verifies. The prefix table holds the Tezos prefixes. The hash, key derivation,
  signature and secret box are keyed polynomial sums with the lengths and the length
  checks of the real functions: they are stand-ins, used for the closed examples only.
  No theorem about the class assumes anything of them.
\<close>

unbundle bit_operations_syntax

definition alphabet :: string where
  "alphabet = ''123456789ABCDEFGHJKLMNPQRSTUVWXYZabcdefghijkmnopqrstuvwxyz''"

definition b58_value :: "char \<Rightarrow> int option" where
  "b58_value c = map_of (zip alphabet (map int [0..<58])) c"

fun b58_digits :: "string \<Rightarrow> int list option" where
  "b58_digits [] = Some []"
| "b58_digits (c # cs) =
     (case b58_value c of
        None \<Rightarrow> None
      | Some d \<Rightarrow> (case b58_digits cs of None \<Rightarrow> None | Some ds \<Rightarrow> Some (d # ds)))"

definition horner :: "int \<Rightarrow> int list \<Rightarrow> int" where
  "horner b ds = foldl (\<lambda>a d. a * b + d) 0 ds"

function digits :: "int \<Rightarrow> int \<Rightarrow> int list" where
  "digits b n = (if n \<le> 0 \<or> b < 2 then [] else (n mod b) # digits b (n div b))"
  by pat_completeness auto
termination
  by (relation "measure (\<lambda>(b, n). nat n)") (auto simp: zless_nat_conj int_div_less_self)

definition b58decode :: "string \<Rightarrow> exn + bytes" where
  "b58decode s =
     (case b58_digits s of
        None \<Rightarrow> Inl (Exn ''Non-base58 character'')
      | Some ds \<Rightarrow>
          Inr (replicate (length (takeWhile (\<lambda>d. d = 0) ds)) 0
               @ map of_int (rev (digits 256 (horner 58 ds)))))"

definition b58encode :: "bytes \<Rightarrow> string" where
  "b58encode bs =
     replicate (length (takeWhile (\<lambda>b. b = 0) bs)) (CHR ''1'')
     @ map (\<lambda>d. alphabet ! nat d) (rev (digits 58 (horner 256 (map uint bs))))"

text \<open>
  A check that a text and a byte string denote the same number with the same count of
  leading zeros. Lemmas \<open>b58decode_agree\<close> and \<open>b58encode_agree\<close> show that it decides
  both conversions, without a division.
\<close>

definition b58_agree :: "string \<Rightarrow> bytes \<Rightarrow> bool" where
  "b58_agree s bs =
     (case b58_digits s of
        None \<Rightarrow> False
      | Some ds \<Rightarrow>
          horner 58 ds = horner 256 (map uint bs) \<and>
          length (takeWhile (\<lambda>d. d = 0) ds) = length (takeWhile (\<lambda>b. b = 0) bs))"

definition demo_hash :: "nat \<Rightarrow> bytes \<Rightarrow> bytes" where
  "demo_hash n bs =
     map (\<lambda>i. foldl (\<lambda>a b. (2 * of_nat i + 3) * a + b) (of_nat i + 7) bs) [0..<n]"

subsubsection \<open>SHA-256, for the check bytes\<close>

text \<open>
  The check bytes of \<^verbatim>\<open>bs58check\<close> are the first four bytes of the SHA-256 of the
  SHA-256 of the payload. Words of 32 bits are held as integers below \<open>2 ^ 32\<close>.
\<close>

definition add32 :: "int \<Rightarrow> int \<Rightarrow> int" where
  "add32 x y = take_bit 32 (x + y)"

definition rotr :: "nat \<Rightarrow> int \<Rightarrow> int" where
  "rotr n x = (drop_bit n x) OR take_bit 32 (push_bit (32 - n) x)"

definition sha_k :: "int list" where
  "sha_k =
     [1116352408, 1899447441, 3049323471, 3921009573, 961987163, 1508970993,
      2453635748, 2870763221, 3624381080, 310598401, 607225278, 1426881987,
      1925078388, 2162078206, 2614888103, 3248222580, 3835390401, 4022224774,
      264347078, 604807628, 770255983, 1249150122, 1555081692, 1996064986,
      2554220882, 2821834349, 2952996808, 3210313671, 3336571891, 3584528711,
      113926993, 338241895, 666307205, 773529912, 1294757372, 1396182291, 1695183700,
      1986661051, 2177026350, 2456956037, 2730485921, 2820302411, 3259730800,
      3345764771, 3516065817, 3600352804, 4094571909, 275423344, 430227734,
      506948616, 659060556, 883997877, 958139571, 1322822218, 1537002063, 1747873779,
      1955562222, 2024104815, 2227730452, 2361852424, 2428436474, 2756734187,
      3204031479, 3329325298]"

definition sha_h0 :: "int list" where
  "sha_h0 =
     [1779033703, 3144134277, 1013904242, 2773480762, 1359893119, 2600822924,
      528734635, 1541459225]"

fun be32 :: "int list \<Rightarrow> int list" where
  "be32 (a # b # c # d # r) = (((a * 256 + b) * 256 + c) * 256 + d) # be32 r"
| "be32 r = []"

definition pad :: "int list \<Rightarrow> int list" where
  "pad m =
     m @ [128] @ replicate ((119 - length m mod 64) mod 64) 0 @
     map (\<lambda>i. (int (8 * length m) div 256 ^ (7 - i)) mod 256) [0..<8]"

text \<open>The message schedule, the newest word first.\<close>

fun schedule :: "nat \<Rightarrow> int list \<Rightarrow> int list" where
  "schedule 0 ws = ws"
| "schedule (Suc n) ws =
     schedule n
       (add32 (add32 (rotr 17 (ws ! 1) XOR rotr 19 (ws ! 1) XOR drop_bit 10 (ws ! 1)) (ws ! 6))
          (add32 (rotr 7 (ws ! 14) XOR rotr 18 (ws ! 14) XOR drop_bit 3 (ws ! 14)) (ws ! 15)) # ws)"

fun sha_round :: "int list \<Rightarrow> int \<times> int \<Rightarrow> int list" where
  "sha_round [a, b, c, d, e, f, g, h] (k, w) =
     (let t1 = add32 (add32 (add32 h (rotr 6 e XOR rotr 11 e XOR rotr 25 e))
                        (g XOR (e AND (f XOR g)))) (add32 k w);
          t2 = add32 (rotr 2 a XOR rotr 13 a XOR rotr 22 a) ((a AND b) XOR (c AND (a XOR b)))
      in [add32 t1 t2, a, b, c, add32 d t1, e, f, g])"
| "sha_round s kw = s"

definition compress :: "int list \<Rightarrow> int list \<Rightarrow> int list" where
  "compress hs block =
     map2 add32 hs (foldl sha_round hs (zip sha_k (rev (schedule 48 (rev block)))))"

fun blocks :: "nat \<Rightarrow> int list \<Rightarrow> int list \<Rightarrow> int list" where
  "blocks 0 hs ws = hs"
| "blocks (Suc n) hs ws = blocks n (compress hs (take 16 ws)) (drop 16 ws)"

definition sha256 :: "bytes \<Rightarrow> bytes" where
  "sha256 m =
     concat (map (\<lambda>x. map (\<lambda>i. of_int (drop_bit (8 * (3 - i)) x)) [0..<4])
       (blocks (length (pad (map uint m)) div 64) sha_h0 (be32 (pad (map uint m)))))"

definition demo_checksum :: "bytes \<Rightarrow> bytes" where
  "demo_checksum bs = take 4 (sha256 (sha256 bs))"

subsubsection \<open>The functions of the provider\<close>

definition demo_b58cencode :: "bytes option \<Rightarrow> bytes option \<Rightarrow> exn + string" where
  "demo_b58cencode payload pre =
     (case pre of
        None \<Rightarrow> Inl (Exn ''Cannot read property length of undefined'')
      | Some q \<Rightarrow>
          (case payload of
             None \<Rightarrow> Inl (Exn ''Cannot read property length of undefined'')
           | Some p \<Rightarrow> Inr (b58encode (q @ p @ demo_checksum (q @ p)))))"

text \<open>
  Decoding checks the four check bytes first, as \<^verbatim>\<open>bs58check.decode\<close> does, and then cuts
  off as many bytes as the prefix has; the prefix bytes themselves are not compared.
\<close>

definition demo_b58cdecode :: "string \<Rightarrow> bytes option \<Rightarrow> exn + bytes" where
  "demo_b58cdecode s pre =
     (case b58decode s of
        Inl x \<Rightarrow> Inl x
      | Inr raw \<Rightarrow>
          if length raw < 4 \<or>
             drop (length raw - 4) raw \<noteq> demo_checksum (take (length raw - 4) raw)
          then Inl (Exn ''Invalid checksum'')
          else (case pre of
                  None \<Rightarrow> Inl (Exn ''Cannot read property length of undefined'')
                | Some q \<Rightarrow> Inr (drop (length q) (take (length raw - 4) raw))))"

definition hex_value :: "char \<Rightarrow> nat option" where
  "hex_value c = map_of (zip ''0123456789abcdef'' [0..<16] @ zip ''ABCDEF'' [10..<16]) c"

fun hex_pairs :: "string \<Rightarrow> bytes option" where
  "hex_pairs [] = Some []"
| "hex_pairs [c] = None"
| "hex_pairs (c # d # cs) =
     (case (hex_value c, hex_value d) of
        (Some a, Some b) \<Rightarrow>
          (case hex_pairs cs of None \<Rightarrow> None | Some bs \<Rightarrow> Some (of_nat (16 * a + b) # bs))
      | _ \<Rightarrow> None)"

definition demo_hex2buf :: "string \<Rightarrow> exn + bytes" where
  "demo_hex2buf s =
     (if s = [] then Inl (Exn ''Cannot read property map of null'')
      else (case hex_pairs s of
              None \<Rightarrow> Inl (Exn ''not a hexadecimal string'')
            | Some bs \<Rightarrow> Inr bs))"

definition demo_buf2hex :: "bytes \<Rightarrow> string" where
  "demo_buf2hex bs =
     concat (map (\<lambda>b. [''0123456789abcdef'' ! (unat b div 16),
                        ''0123456789abcdef'' ! (unat b mod 16)]) bs)"

fun to_bytes :: "data \<Rightarrow> bytes" where
  "to_bytes (Text s) = map of_char s"
| "to_bytes (Bytes b) = b"

definition demo_pbkdf2Sync :: "data \<Rightarrow> data \<Rightarrow> nat \<Rightarrow> nat \<Rightarrow> string \<Rightarrow> exn + bytes" where
  "demo_pbkdf2Sync password salt iterations keylen digest =
     Inr (demo_hash keylen (to_bytes password @ to_bytes salt))"

definition demo_seed_keypair :: "bytes \<Rightarrow> exn + bytes \<times> bytes" where
  "demo_seed_keypair seed =
     (if length seed \<noteq> 32 then Inl (Exn ''invalid seed length'')
      else Inr (demo_hash 32 seed, seed @ demo_hash 32 seed))"

definition demo_generichash :: "nat \<Rightarrow> bytes option \<Rightarrow> exn + bytes" where
  "demo_generichash n d =
     (case d of
        None \<Rightarrow> Inl (Exn ''unsupported input type for message'')
      | Some bs \<Rightarrow> Inr (demo_hash n bs))"

definition demo_sign_detached :: "bytes \<Rightarrow> bytes option \<Rightarrow> exn + bytes" where
  "demo_sign_detached m sk =
     (case sk of
        None \<Rightarrow> Inl (Exn ''unsupported input type for privateKey'')
      | Some s \<Rightarrow>
          if length s \<noteq> 64 then Inl (Exn ''invalid privateKey length'')
          else Inr (demo_hash 64 (drop 32 s @ m)))"

definition demo_verify_detached :: "data \<Rightarrow> bytes \<Rightarrow> bytes \<Rightarrow> exn + bool" where
  "demo_verify_detached sg m pk =
     (if length (to_bytes sg) \<noteq> 64 then Inl (Exn ''invalid signature length'')
      else if length pk \<noteq> 32 then Inl (Exn ''invalid publicKey length'')
      else Inr (to_bytes sg = demo_hash 64 (pk @ m)))"

definition demo_secretbox_open_easy :: "bytes \<Rightarrow> bytes \<Rightarrow> bytes \<Rightarrow> exn + bytes" where
  "demo_secretbox_open_easy c nonce key =
     (if length c < 16 then Inl (Exn ''ciphertext is too short'')
      else if take 16 c \<noteq> demo_hash 16 (key @ nonce @ drop 16 c)
      then Inl (Exn ''wrong secret key for the given ciphertext'')
      else Inr (drop 16 c))"

definition demo_publicKeyCreate :: "bytes \<Rightarrow> exn + bytes" where
  "demo_publicKeyCreate sk =
     (if length sk \<noteq> 32 then Inl (Exn ''private key length is invalid'')
      else Inr (2 # demo_hash 32 sk))"

definition demo_prefix :: "string \<Rightarrow> bytes option" where
  "demo_prefix =
     map_of [(''tz1'', [6, 161, 159]), (''tz2'', [6, 161, 161]), (''tz3'', [6, 161, 164]),
             (''edpk'', [13, 15, 37, 217]), (''sppk'', [3, 254, 226, 86]),
             (''p2pk'', [3, 178, 139, 127]), (''edsk'', [43, 246, 78, 7]),
             (''spsk'', [17, 162, 224, 201]), (''p2sk'', [16, 81, 238, 189]),
             (''edesk'', [7, 90, 60, 179, 41]), (''spesk'', [9, 237, 241, 174, 150]),
             (''p2esk'', [9, 48, 57, 115, 171]), (''edsig'', [9, 245, 205, 134, 18]),
             (''spsig'', [13, 115, 101, 19, 63]), (''p2sig'', [54, 240, 44, 52]),
             (''sig'', [4, 130, 43])]"

definition demo :: provider where
  "demo = \<lparr>prefix = demo_prefix, b58cencode = demo_b58cencode, b58cdecode = demo_b58cdecode,
           hex2buf = demo_hex2buf, buf2hex = demo_buf2hex, mergebuf = (\<lambda>a b. a @ b),
           textEncode = map of_char, textDecode = map (\<lambda>b. char_of (unat b)),
           normalize_NFKD = (\<lambda>s. s), pbkdf2Sync = demo_pbkdf2Sync,
           crypto_sign_seed_keypair = demo_seed_keypair,
           crypto_generichash = demo_generichash,
           crypto_sign_detached = demo_sign_detached,
           crypto_sign_verify_detached = demo_verify_detached,
           crypto_secretbox_open_easy = demo_secretbox_open_easy,
           publicKeyCreate = demo_publicKeyCreate\<rparr>"

subsection \<open>Example inputs\<close>

text \<open>
  \<open>doc_key\<close> is the secret key of the example in the documentation of the class (line
  15). \<open>doc_secret\<close> is its 64 bytes, \<open>doc_Key\<close> the object that the constructor makes of
  it with the concrete provider (lemma \<open>doc_key_ready\<close>), and \<open>doc_signature\<close> the bytes
  that the stand-in signature function returns for the message \<^verbatim>\<open>00ab\<close>.
\<close>

definition doc_key :: string where
  "doc_key = ''edskRv6ZnkLQMVustbYHFPNsABu1Js6pEEWyMUFJQTqEZjVCU2WHh8ckcc7YA4uBzPiJjZCsv3pC1NDdV99AnyLzPjSip4uC3y''"

definition doc_secret :: bytes where
  "doc_secret =
     [138, 55, 68, 104, 77, 141, 189, 96, 100, 189, 157, 226, 106, 58, 87,
      45, 232, 128, 44, 227, 204, 246, 67, 193, 15, 74, 192, 133, 27, 59,
      228, 117, 120, 255, 174, 238, 178, 102, 37, 89, 242, 3, 147, 64,
      123, 147, 148, 203, 211, 236, 221, 144, 69, 13, 110, 45, 194, 12,
      133, 147, 123, 36, 132, 104]"

definition doc_Key :: Key where
  "doc_Key = fresh\<lparr>curve := Some ''ed'', f_isSecret := Some True, f_secretKey := Some doc_secret,
                    f_publicKey := Some (drop 32 doc_secret), ready := Fulfilled\<rparr>"

definition doc_signature :: bytes where
  "doc_signature =
     [131, 184, 125, 210, 55, 172, 177, 70, 235, 160, 229, 186, 159, 148,
      25, 46, 83, 136, 77, 162, 7, 124, 129, 22, 187, 112, 181, 138, 111,
      100, 233, 254, 35, 88, 29, 114, 215, 76, 81, 230, 139, 64, 133, 90,
      63, 52, 185, 206, 243, 40, 237, 66, 167, 28, 33, 182, 91, 16, 85, 42,
      15, 4, 137, 158]"

section \<open>Properties\<close>

subsection \<open>The base58 conversion of the concrete provider\<close>

declare digits.simps [simp del]

lemma horner_snoc: "horner b (ds @ [d]) = horner b ds * b + d"
  by (simp add: horner_def)

lemma horner_nonneg: "0 \<le> b \<Longrightarrow> \<forall>d\<in>set ds. 0 \<le> d \<Longrightarrow> 0 \<le> horner b ds"
  by (induction ds rule: rev_induct) (simp_all add: horner_def)

lemma horner_zero_iff:
  assumes "2 \<le> b" and "\<forall>d\<in>set ds. 0 \<le> d"
  shows "horner b ds = 0 \<longleftrightarrow> (\<forall>d\<in>set ds. d = 0)"
  using assms(2)
proof (induction ds rule: rev_induct)
  case Nil
  then show ?case by (simp add: horner_def)
next
  case (snoc d ds)
  then have n: "0 \<le> horner b ds" and d: "0 \<le> d"
    using assms(1) by (auto intro: horner_nonneg)
  have "horner b ds * b + d = 0 \<longleftrightarrow> horner b ds = 0 \<and> d = 0"
  proof
    assume e: "horner b ds * b + d = 0"
    have "0 \<le> horner b ds * b" using n assms(1) by simp
    with e d have "horner b ds * b = 0" and "d = 0" by linarith+
    with assms(1) show "horner b ds = 0 \<and> d = 0" by simp
  qed simp
  with snoc show ?case by (auto simp: horner_snoc)
qed

lemma digits_horner:
  assumes "2 \<le> b" and "\<forall>d\<in>set ds. 0 \<le> d \<and> d < b"
  shows "rev (digits b (horner b ds)) = dropWhile (\<lambda>d. d = 0) ds"
  using assms(2)
proof (induction ds rule: rev_induct)
  case Nil
  then show ?case by (simp add: horner_def digits.simps)
next
  case (snoc d ds)
  then have d: "0 \<le> d" "d < b" and all: "\<forall>d\<in>set ds. 0 \<le> d \<and> d < b" by auto
  then have nn: "\<forall>d\<in>set ds. 0 \<le> d" by auto
  have n: "0 \<le> horner b ds" using assms(1) nn by (auto intro: horner_nonneg)
  show ?case
  proof (cases "horner b ds * b + d \<le> 0")
    case True
    have "0 \<le> horner b ds * b" using n assms(1) by simp
    with True d have "horner b ds * b = 0" and d0: "d = 0" by linarith+
    with assms(1) have "horner b ds = 0" by simp
    then have "\<forall>d\<in>set ds. d = 0" using horner_zero_iff [OF assms(1) nn] by simp
    with d0 have "dropWhile (\<lambda>d. d = 0) (ds @ [d]) = []" by simp
    with True show ?thesis by (simp add: horner_snoc digits.simps)
  next
    case False
    have m: "(horner b ds * b + d) mod b = d" using d by simp
    have q: "(horner b ds * b + d) div b = horner b ds" using d by simp
    from False have z: "\<not> (\<forall>x\<in>set (ds @ [d]). x = 0)"
      using horner_zero_iff [OF assms(1), of "ds @ [d]"] nn d by (auto simp: horner_snoc)
    have dw: "dropWhile (\<lambda>d. d = 0) (ds @ [d]) = dropWhile (\<lambda>d. d = 0) ds @ [d]"
    proof (cases "\<forall>x\<in>set ds. x = 0")
      case True
      with z have "d \<noteq> 0" by auto
      with True show ?thesis by (simp add: dropWhile_append)
    next
      case False
      then show ?thesis by (auto simp: dropWhile_append1)
    qed
    have dm: "d mod b = d" and dd: "d div b = 0" using d by simp_all
    from False assms(1) have "digits b (horner b ds * b + d) = d # digits b (horner b ds)"
      by (subst digits.simps) (simp add: dm dd)
    with snoc.IH all dw show ?thesis by (simp add: horner_snoc)
  qed
qed


lemma b58_value_Some:
  assumes "b58_value c = Some d"
  shows "0 \<le> d \<and> d < 58 \<and> alphabet ! nat d = c"
proof -
  have len: "length alphabet = 58" by (simp add: alphabet_def)
  from assms have "(c, d) \<in> set (zip alphabet (map int [0..<58]))"
    unfolding b58_value_def by (rule map_of_SomeD)
  then obtain i where "alphabet ! i = c" "map int [0..<58] ! i = d" "i < 58"
    using len by (auto simp: in_set_zip)
  then show ?thesis by auto
qed

lemma b58_digits_Some:
  "b58_digits s = Some ds \<Longrightarrow>
     (\<forall>d\<in>set ds. 0 \<le> d \<and> d < 58) \<and> map (\<lambda>d. alphabet ! nat d) ds = s"
proof (induction s arbitrary: ds)
  case Nil
  then show ?case by simp
next
  case (Cons c cs)
  then obtain d ds' where v: "b58_value c = Some d" and r: "b58_digits cs = Some ds'"
    and e: "ds = d # ds'"
    by (auto split: option.splits)
  from Cons.IH [OF r] b58_value_Some [OF v] e show ?case by simp
qed

lemma replicate_takeWhile:
  "replicate (length (takeWhile (\<lambda>x. x = z) xs)) z = takeWhile (\<lambda>x. x = z) xs"
  by (induction xs) simp_all

lemma map_takeWhile_const:
  "map f (takeWhile (\<lambda>x. x = z) xs) = replicate (length (takeWhile (\<lambda>x. x = z) xs)) (f z)"
  by (induction xs) simp_all

lemma b58encode_agree:
  assumes "b58_agree s bs"
  shows "b58encode bs = s"
proof -
  from assms obtain ds where ds: "b58_digits s = Some ds"
    and h: "horner 58 ds = horner 256 (map uint bs)"
    and z: "length (takeWhile (\<lambda>d. d = 0) ds) = length (takeWhile (\<lambda>b. b = 0) bs)"
    by (auto simp: b58_agree_def split: option.splits)
  from b58_digits_Some [OF ds]
  have r: "\<forall>d\<in>set ds. 0 \<le> d \<and> d < 58" and m: "map (\<lambda>d. alphabet ! nat d) ds = s" by simp_all
  have one: "alphabet ! 0 = CHR ''1''" by (simp add: alphabet_def)
  have "rev (digits 58 (horner 256 (map uint bs))) = dropWhile (\<lambda>d. d = 0) ds"
    using digits_horner [of 58 ds] r h by simp
  then have "b58encode bs =
      map (\<lambda>d. alphabet ! nat d) (takeWhile (\<lambda>d. d = 0) ds) @
      map (\<lambda>d. alphabet ! nat d) (dropWhile (\<lambda>d. d = 0) ds)"
    by (simp add: b58encode_def z [symmetric] map_takeWhile_const one)
  also have "\<dots> = map (\<lambda>d. alphabet ! nat d) ds"
    by (simp flip: map_append)
  finally show ?thesis using m by simp
qed

lemma b58decode_agree:
  assumes "b58_agree s bs"
  shows "b58decode s = Inr bs"
proof -
  from assms obtain ds where ds: "b58_digits s = Some ds"
    and h: "horner 58 ds = horner 256 (map uint bs)"
    and z: "length (takeWhile (\<lambda>d. d = 0) ds) = length (takeWhile (\<lambda>b. b = 0) bs)"
    by (auto simp: b58_agree_def split: option.splits)
  have r: "\<forall>d\<in>set (map uint bs). 0 \<le> d \<and> d < 256"
  proof
    fix d assume "d \<in> set (map uint bs)"
    then obtain b :: byte where "d = uint b" by auto
    moreover have "uint b < 256" using uint_lt2p [of b] by simp
    ultimately show "0 \<le> d \<and> d < 256" by simp
  qed
  have "rev (digits 256 (horner 256 (map uint bs))) = dropWhile (\<lambda>d. d = 0) (map uint bs)"
    using digits_horner [of 256 "map uint bs"] r by simp
  also have "\<dots> = map uint (dropWhile (\<lambda>b. b = 0) bs)"
    by (simp add: dropWhile_map comp_def uint_0_iff)
  finally have "map of_int (rev (digits 256 (horner 58 ds))) = dropWhile (\<lambda>b. b = 0) bs"
    by (simp add: h comp_def)
  then have "b58decode s = Inr (takeWhile (\<lambda>b. b = 0) bs @ dropWhile (\<lambda>b. b = 0) bs)"
    by (simp add: b58decode_def ds z replicate_takeWhile)
  then show ?thesis by simp
qed

text \<open>
  The hash function is SHA-256: its value on the three bytes of \<^verbatim>\<open>abc\<close> is the one of
  the standard's example.
\<close>

lemma sha256_abc:
  "sha256 [97, 98, 99] =
     [186, 120, 22, 191, 143, 1, 207, 234, 65, 65, 64, 222, 93, 174, 34, 35, 176, 3,
      97, 163, 150, 23, 122, 156, 180, 16, 255, 97, 242, 0, 21, 173]"
  by code_simp

text \<open>
  The codec of the concrete provider on a string whose bytes are known: decoding checks
  the four check bytes and cuts the prefix off, or throws on reading the length of an
  \<^verbatim>\<open>undefined\<close> prefix; encoding appends the check bytes.
\<close>

lemma demo_decoded:
  assumes "b58_agree s ((q @ p) @ c)" and "length c = 4" and "demo_checksum (q @ p) = c"
  shows "b58cdecode demo s (Some q) = Inr p"
    and "b58cdecode demo s None = Inl (Exn ''Cannot read property length of undefined'')"
  using assms by (simp_all add: demo_def demo_b58cdecode_def b58decode_agree)

lemma demo_b58cencode_agree:
  assumes "b58_agree s (q @ p @ demo_checksum (q @ p))"
  shows "b58cencode demo (Some p) (Some q) = Inr s"
  using assms by (simp add: demo_def demo_b58cencode_def b58encode_agree)

subsection \<open>What every run of initialize leaves behind\<close>

lemma initialize_stages:
  "initialize P k key passphrase email ready_fn =
     (if truthy email then fundraiser P k key passphrase email ready_fn
      else encoded P k key passphrase ready_fn)"
  unfolding initialize_def fundraiser_def encoded_def decode_def decrypt_def derive_def Let_def
  by (rule refl)

lemma fundraiser_outcome:
  "(case fundraiser P k key passphrase email (Some resolve) of
      (None, k') \<Rightarrow> f_publicKey k' \<noteq> None \<and> ready k' = ready (resolve k) \<and>
         f_isSecret k' = Some True \<and> curve k' = Some ''ed''
    | (Some e, k') \<Rightarrow> k' = k)"
  by (simp add: fundraiser_def call_def resolve_def split: sum.split prod.split)

lemma derive_outcome:
  "(case derive P k2 kb (Some resolve) of
      (None, k') \<Rightarrow> f_publicKey k' \<noteq> None \<and> ready k' = ready (resolve k2) \<and>
         f_isSecret k' = f_isSecret k2 \<and> curve k' = curve k2 \<and>
         (f_isSecret k' \<noteq> Some True \<longrightarrow> f_secretKey k' = None)
    | (Some e, k') \<Rightarrow> k' = k2\<lparr>f_secretKey := Some kb\<rparr> \<and> f_isSecret k2 = Some True)"
  by (simp add: derive_def Let_def call_def resolve_def split: sum.split prod.split)


lemma derive_NoneD:
  "derive P k2 kb (Some resolve) = (None, k') \<Longrightarrow>
     f_publicKey k' \<noteq> None \<and> ready k' = ready (resolve k2) \<and>
     f_isSecret k' = f_isSecret k2 \<and> curve k' = curve k2 \<and>
     (f_isSecret k' \<noteq> Some True \<longrightarrow> f_secretKey k' = None)"
  using derive_outcome [where P = P and ?k2.0 = k2 and kb = kb] by simp

lemma derive_SomeD:
  "derive P k2 kb (Some resolve) = (Some e, k') \<Longrightarrow>
     k' = k2\<lparr>f_secretKey := Some kb\<rparr> \<and> f_isSecret k2 = Some True"
  using derive_outcome [where P = P and ?k2.0 = k2 and kb = kb] by simp

lemma encoded_cases:
  obtains
    (early) e where
      "encoded P k key passphrase ready_fn = (Some e, k\<lparr>curve := Some (take 2 key)\<rparr>)"
  | (late) e s where
      "encoded P k key passphrase ready_fn =
         (Some e, k\<lparr>curve := Some (take 2 key), f_isSecret := Some s\<rparr>)"
  | (derive) kb s where
      "encoded P k key passphrase ready_fn =
         derive P (k\<lparr>curve := Some (take 2 key), f_isSecret := Some s\<rparr>) kb ready_fn"
proof -
  let ?k1 = "k\<lparr>curve := Some (take 2 key)\<rparr>"
  let ?enc = "take 1 (drop 2 key) = ''e''"
  let ?tag = "if ?enc then take 2 (drop 3 key) else take 2 (drop 2 key)"
  let ?k2 = "?k1\<lparr>f_isSecret := Some (?tag = ''sk'')\<rparr>"
  let ?A = "curve ?k1 \<in> set [Some ''sp'', Some ''p2'', Some ''ed'']"
  let ?B = "length key \<in> set [54, 55, 88, 98]"
  let ?C = "?tag \<in> set [''pk'', ''sk'']"
  show thesis
  proof (cases ?A)
    case False
    then have "encoded P k key passphrase ready_fn = (Some Invalid_prefix, ?k1)"
      by (simp only: encoded_def Let_def if_True not_False_eq_True)
    then show thesis by (rule early)
  next
    case a: True
    show thesis
    proof (cases ?B)
      case False
      with a have "encoded P k key passphrase ready_fn = (Some Invalid_length, ?k1)"
        by (simp only: encoded_def Let_def if_True if_False not_False_eq_True not_True_eq_False)
      then show thesis by (rule early)
    next
      case b: True
      show thesis
      proof (cases ?C)
        case False
        with a b have "encoded P k key passphrase ready_fn = (Some Invalid_prefix, ?k1)"
          by (simp only: encoded_def Let_def if_True if_False not_False_eq_True not_True_eq_False)
        then show thesis by (rule early)
      next
        case c: True
        with a b have eq: "encoded P k key passphrase ready_fn =
           (case decode P ?k2 key ?enc of
              Inl x \<Rightarrow> (Some (Thrown x), ?k2)
            | Inr decoded \<Rightarrow>
                (case decrypt P passphrase ?enc decoded of
                   Inl e \<Rightarrow> (Some e, ?k2)
                 | Inr kb \<Rightarrow> derive P ?k2 kb ready_fn))"
          by (simp only: encoded_def Let_def if_True if_False not_False_eq_True not_True_eq_False)
        show thesis
        proof (cases "decode P ?k2 key ?enc")
          case (Inl x)
          with eq have "encoded P k key passphrase ready_fn = (Some (Thrown x), ?k2)"
            by (simp only: sum.case)
          then show thesis by (rule late)
        next
          case d: (Inr decoded)
          show thesis
          proof (cases "decrypt P passphrase ?enc decoded")
            case (Inl e)
            with eq d have "encoded P k key passphrase ready_fn = (Some e, ?k2)"
              by (simp only: sum.case)
            then show thesis by (rule late)
          next
            case (Inr kb)
            with eq d have "encoded P k key passphrase ready_fn = derive P ?k2 kb ready_fn"
              by (simp only: sum.case)
            then show thesis by (rule derive)
          qed
        qed
      qed
    qed
  qed
qed

lemma ready_resolve_update:
  "ready (resolve (k\<lparr>curve := c, f_isSecret := s\<rparr>)) = ready (resolve k)"
  by (simp add: resolve_def)

lemma encoded_outcome:
  "(case encoded P k key passphrase (Some resolve) of
      (None, k') \<Rightarrow> f_publicKey k' \<noteq> None \<and> ready k' = ready (resolve k) \<and>
         f_isSecret k' \<noteq> None \<and> (f_isSecret k' \<noteq> Some True \<longrightarrow> f_secretKey k' = None)
    | (Some e, k') \<Rightarrow> f_publicKey k' = f_publicKey k \<and> ready k' = ready k \<and>
         (f_secretKey k = None \<and> f_isSecret k' \<noteq> Some True \<longrightarrow> f_secretKey k' = None))"
proof (cases rule: encoded_cases [of P k key passphrase "Some resolve"])
  case (early e)
  then show ?thesis by simp
next
  case (late e s)
  then show ?thesis by simp
next
  case (derive kb s)
  let ?k2 = "k\<lparr>curve := Some (take 2 key), f_isSecret := Some s\<rparr>"
  obtain res k' where r: "derive P ?k2 kb (Some resolve) = (res, k')"
    by (cases "derive P ?k2 kb (Some resolve)")
  show ?thesis
  proof (cases res)
    case None
    with r derive derive_NoneD [of P ?k2 kb k'] show ?thesis
      by (simp add: ready_resolve_update)
  next
    case (Some e)
    with r derive derive_SomeD [of P ?k2 kb e k'] show ?thesis by simp
  qed
qed

lemma initialize_outcome:
  "(case initialize P k key passphrase email (Some resolve) of
      (None, k') \<Rightarrow> f_publicKey k' \<noteq> None \<and> ready k' = ready (resolve k) \<and>
         f_isSecret k' \<noteq> None \<and> (f_isSecret k' \<noteq> Some True \<longrightarrow> f_secretKey k' = None)
    | (Some e, k') \<Rightarrow> f_publicKey k' = f_publicKey k \<and> ready k' = ready k \<and>
         (f_secretKey k = None \<and> f_isSecret k' \<noteq> Some True \<longrightarrow> f_secretKey k' = None))"
proof (cases "truthy email")
  case True
  then show ?thesis
    using fundraiser_outcome [where P = P and k = k and key = key and passphrase = passphrase
                                and email = email]
    by (auto simp: initialize_stages split: prod.splits option.splits)
next
  case False
  then show ?thesis
    using encoded_outcome [where P = P and k = k and key = key and passphrase = passphrase]
    by (simp add: initialize_stages)
qed


subsection \<open>The run of initialize on an encoded key\<close>

text \<open>
  With no email and with a valid curve tag, a valid length and a valid type tag,
  \<^verbatim>\<open>initialize\<close> is the decoding, then the decryption, then the derivation, each on the
  result of the one before (lines 139 to 181).
\<close>

lemma encoded_run:
  assumes "take 2 key \<in> set [''sp'', ''p2'', ''ed'']"
    and "length key \<in> set [54, 55, 88, 98]"
    and "(if take 1 (drop 2 key) = ''e'' then take 2 (drop 3 key) else take 2 (drop 2 key))
           \<in> set [''pk'', ''sk'']"
  shows "encoded P k key passphrase ready_fn =
     (case decode P
             (k\<lparr>curve := Some (take 2 key),
                f_isSecret := Some ((if take 1 (drop 2 key) = ''e'' then take 2 (drop 3 key)
                                     else take 2 (drop 2 key)) = ''sk'')\<rparr>)
             key (take 1 (drop 2 key) = ''e'') of
        Inl x \<Rightarrow>
          (Some (Thrown x),
           k\<lparr>curve := Some (take 2 key),
              f_isSecret := Some ((if take 1 (drop 2 key) = ''e'' then take 2 (drop 3 key)
                                   else take 2 (drop 2 key)) = ''sk'')\<rparr>)
      | Inr decoded \<Rightarrow>
          (case decrypt P passphrase (take 1 (drop 2 key) = ''e'') decoded of
             Inl e \<Rightarrow>
               (Some e,
                k\<lparr>curve := Some (take 2 key),
                   f_isSecret := Some ((if take 1 (drop 2 key) = ''e'' then take 2 (drop 3 key)
                                        else take 2 (drop 2 key)) = ''sk'')\<rparr>)
           | Inr kb \<Rightarrow>
               derive P
                 (k\<lparr>curve := Some (take 2 key),
                    f_isSecret := Some ((if take 1 (drop 2 key) = ''e'' then take 2 (drop 3 key)
                                         else take 2 (drop 2 key)) = ''sk'')\<rparr>)
                 kb ready_fn))"
proof -
  have a: "curve (k\<lparr>curve := Some (take 2 key)\<rparr>) \<in> set [Some ''sp'', Some ''p2'', Some ''ed'']"
    using assms(1) by auto
  from a assms(2,3) show ?thesis
    by (simp only: encoded_def Let_def if_True if_False not_False_eq_True not_True_eq_False)
qed

text \<open>
  A key with the tag \<^verbatim>\<open>pk\<close> is decoded by the call of line 144, and the branch of lines
  159 to 161 stores the result as the public key and calls \<^verbatim>\<open>ready\<close>.
\<close>

lemma public_key_run:
  assumes "\<not> truthy email"
    and "take 2 key \<in> set [''sp'', ''p2'', ''ed'']"
    and "length key \<in> set [54, 55, 88, 98]"
    and t: "(if take 1 (drop 2 key) = ''e'' then take 2 (drop 3 key) else take 2 (drop 2 key)) = ''pk''"
  shows "initialize P k key passphrase email ready_fn =
          (case b58cdecode P key (prefix P (take 2 key @ ''pk'')) of
             Inl x \<Rightarrow>
               (Some (Thrown x), k\<lparr>curve := Some (take 2 key), f_isSecret := Some False\<rparr>)
           | Inr decoded \<Rightarrow>
               (case decrypt P passphrase (take 1 (drop 2 key) = ''e'') decoded of
                  Inl e \<Rightarrow>
                    (Some e, k\<lparr>curve := Some (take 2 key), f_isSecret := Some False\<rparr>)
                | Inr kb \<Rightarrow>
                    call ready_fn
                      (k\<lparr>curve := Some (take 2 key), f_isSecret := Some False,
                         f_publicKey := Some kb, f_secretKey := None\<rparr>)))"
proof -
  from t have c: "(if take 1 (drop 2 key) = ''e'' then take 2 (drop 3 key) else take 2 (drop 2 key))
           \<in> set [''pk'', ''sk'']"
    by simp
  have d: "\<And>kb. derive P (k\<lparr>curve := Some (take 2 key), f_isSecret := Some False\<rparr>) kb ready_fn =
            call ready_fn (k\<lparr>curve := Some (take 2 key), f_isSecret := Some False,
                              f_publicKey := Some kb, f_secretKey := None\<rparr>)"
    by (simp add: derive_def)
  from assms(1) have "initialize P k key passphrase email ready_fn =
         encoded P k key passphrase ready_fn"
    by (simp add: initialize_stages)
  also note encoded_run [OF assms(2,3) c]
  finally show ?thesis
    unfolding t by (simp add: decode_def template_def d cong: sum.case_cong)
qed

text \<open>
  A key with the tag \<^verbatim>\<open>sk\<close> is decoded by the call of line 142, and lines 163 to 178
  derive the public key from the result.
\<close>

lemma secret_key_run:
  assumes "\<not> truthy email"
    and "take 2 key \<in> set [''sp'', ''p2'', ''ed'']"
    and "length key \<in> set [54, 55, 88, 98]"
    and t: "(if take 1 (drop 2 key) = ''e'' then take 2 (drop 3 key) else take 2 (drop 2 key)) = ''sk''"
  shows "initialize P k key passphrase email ready_fn =
          (case b58cdecode P key
                  (prefix P (take 2 key @ (if take 1 (drop 2 key) = ''e'' then ''e'' else []) @ ''sk'')) of
             Inl x \<Rightarrow>
               (Some (Thrown x), k\<lparr>curve := Some (take 2 key), f_isSecret := Some True\<rparr>)
           | Inr decoded \<Rightarrow>
               (case decrypt P passphrase (take 1 (drop 2 key) = ''e'') decoded of
                  Inl e \<Rightarrow>
                    (Some e, k\<lparr>curve := Some (take 2 key), f_isSecret := Some True\<rparr>)
                | Inr kb \<Rightarrow>
                    derive P (k\<lparr>curve := Some (take 2 key), f_isSecret := Some True\<rparr>)
                      kb ready_fn))"
proof -
  from t have c: "(if take 1 (drop 2 key) = ''e'' then take 2 (drop 3 key) else take 2 (drop 2 key))
           \<in> set [''pk'', ''sk'']"
    by simp
  from assms(1) have "initialize P k key passphrase email ready_fn =
         encoded P k key passphrase ready_fn"
    by (simp add: initialize_stages)
  also note encoded_run [OF assms(2,3) c]
  finally show ?thesis
    unfolding t by (simp add: decode_def template_def cong: sum.case_cong)
qed


subsection \<open>The order of the prefix check and the length check\<close>

text \<open>
  C5, as amended. With no email (a falsy \<^verbatim>\<open>email\<close>), a string whose length is not one
  of 54, 55, 88, 98 makes \<^verbatim>\<open>initialize\<close> throw 'Invalid length for a key encoding'
  (the spec's InvalidKeyLength) when its first two characters are one of the curve tags
  \<^verbatim>\<open>sp\<close>, \<^verbatim>\<open>p2\<close>, \<^verbatim>\<open>ed\<close>. When they are not, the check of the curve tag, which
  comes first (line 124), throws 'Invalid prefix for a key encoding.' instead, and it
  does so whatever the length of the string.
\<close>

theorem C5_invalid_length:
  "\<not> truthy email \<Longrightarrow>
   (length key \<notin> set [54, 55, 88, 98] \<longrightarrow>
      fst (initialize P k key passphrase email ready_fn) =
        Some (if take 2 key \<in> set [''sp'', ''p2'', ''ed''] then Invalid_length else Invalid_prefix))
   \<and> (take 2 key \<notin> set [''sp'', ''p2'', ''ed''] \<longrightarrow>
        fst (initialize P k key passphrase email ready_fn) = Some Invalid_prefix)"
  by (simp add: initialize_def Let_def)

theorem C5_invalid_length_witness:
  "\<not> truthy None \<and> length ''edsk'' \<notin> set [54, 55, 88, 98::nat] \<and>
   fst (initialize demo fresh ''edsk'' None None (Some resolve)) = Some Invalid_length \<and>
   length ''xxpkuZWgrKbNiwAVZ42RnEiNwm2ipohxbPWXsxpofSLFDqcHjKnypg'' = 54 \<and>
   take 2 ''xxpkuZWgrKbNiwAVZ42RnEiNwm2ipohxbPWXsxpofSLFDqcHjKnypg'' \<notin> set [''sp'', ''p2'', ''ed''] \<and>
   fst (initialize demo fresh ''xxpkuZWgrKbNiwAVZ42RnEiNwm2ipohxbPWXsxpofSLFDqcHjKnypg''
          None None (Some resolve)) = Some Invalid_prefix"
proof -
  have a: "\<not> truthy None" by (simp add: truthy_def)
  have b: "length ''edsk'' \<notin> set [54, 55, 88, 98::nat]" by simp
  have c: "fst (initialize demo fresh ''edsk'' None None (Some resolve)) = Some Invalid_length"
    using C5_invalid_length [OF a, THEN conjunct1, THEN mp, OF b, of demo fresh None "Some resolve"]
    by simp
  have d: "length ''xxpkuZWgrKbNiwAVZ42RnEiNwm2ipohxbPWXsxpofSLFDqcHjKnypg'' = 54" by simp
  have e: "take 2 ''xxpkuZWgrKbNiwAVZ42RnEiNwm2ipohxbPWXsxpofSLFDqcHjKnypg''
             \<notin> set [''sp'', ''p2'', ''ed'']"
    by simp
  have f: "fst (initialize demo fresh ''xxpkuZWgrKbNiwAVZ42RnEiNwm2ipohxbPWXsxpofSLFDqcHjKnypg''
          None None (Some resolve)) = Some Invalid_prefix"
    by (rule C5_invalid_length [OF a, THEN conjunct2, THEN mp, OF e])
  show ?thesis by (rule conjI [OF a conjI [OF b conjI [OF c conjI [OF d conjI [OF e f]]]]])
qed

text \<open>
  C5 as stated fails: \<^verbatim>\<open>new Key('xx')\<close> has a length outside the four and no valid curve
  tag, and \<^verbatim>\<open>initialize\<close> throws the prefix error, not the length error.
\<close>

theorem C5_counterexample:
  "length ''xx'' \<notin> set [54, 55, 88, 98::nat] \<and>
   fst (initialize demo fresh ''xx'' None None (Some resolve)) = Some Invalid_prefix \<and>
   fst (initialize demo fresh ''xx'' None None (Some resolve)) \<noteq> Some Invalid_length"
  by (simp add: initialize_def Let_def truthy_def)

subsection \<open>Keys of the curve p2\<close>

lemma tag_not_e:
  assumes "take 2 (drop 2 key) = [c, d]" and "c \<noteq> CHR ''e''"
  shows "take 1 (drop 2 key) \<noteq> ''e''"
proof
  assume b: "take 1 (drop 2 key) = ''e''"
  have "take 1 (take 2 (drop 2 key)) = take 1 (drop 2 key)" by simp
  with assms b show False by simp
qed

text \<open>
  A p2 public key is accepted by every provider whose decoder accepts the string: the
  branch for a key that is not secret (lines 159 to 161) does not look at the curve.
\<close>

lemma p2_public_key_ready:
  assumes "\<not> truthy email" and "take 2 key = ''p2''" and "take 2 (drop 2 key) = ''pk''"
    and "length key \<in> set [54, 55, 88, 98]"
    and "b58cdecode P key (prefix P ''p2pk'') = Inr decoded"
  shows "initialize P k key passphrase email (Some resolve) =
           (None, resolve (k\<lparr>curve := Some ''p2'', f_isSecret := Some False,
                              f_publicKey := Some decoded, f_secretKey := None\<rparr>))"
proof -
  have "take 1 (drop 2 key) \<noteq> ''e''"
    using assms(3) by (rule tag_not_e) simp
  with assms show ?thesis
    by (simp add: initialize_def Let_def call_def template_def)
qed



text \<open>
  C1 as stated fails: a p2 public key is decoded and stored, and \<^verbatim>\<open>ready()\<close> is called.
  The string is a P-256 public key in Tezos notation, of length 55.
\<close>

lemma p2_public_key_run:
  "initialize demo fresh ''p2pk67wVncLFS1DQDm2gVR45sYCzQSXTtqn3bviNYXVCq6WRoqtxHXL''
     None None (Some resolve) =
   (None,
    resolve (fresh\<lparr>curve := Some ''p2'', f_isSecret := Some False,
                    f_publicKey :=
                      Some [3, 187, 135, 230, 164, 35, 26, 191, 61, 15, 110, 108, 233, 209,
                            196, 128, 211, 187, 165, 130, 245, 72, 6, 82, 79, 202, 1, 76,
                            209, 139, 192, 193, 144],
                    f_secretKey := None\<rparr>))"
proof -
  have p: "prefix demo ''p2pk'' = Some [3, 178, 139, 127]"
    by (simp add: demo_def demo_prefix_def)
  have d: "b58cdecode demo ''p2pk67wVncLFS1DQDm2gVR45sYCzQSXTtqn3bviNYXVCq6WRoqtxHXL''
        (prefix demo ''p2pk'') =
      Inr [3, 187, 135, 230, 164, 35, 26, 191, 61, 15, 110, 108, 233, 209, 196, 128, 211,
           187, 165, 130, 245, 72, 6, 82, 79, 202, 1, 76, 209, 139, 192, 193, 144]"
    unfolding p
    by (rule demo_decoded(1) [where c = "[68, 211, 210, 103]"]) (code_simp, simp, code_simp)
  show ?thesis
    by (rule p2_public_key_ready [OF _ _ _ _ d]) (simp_all add: truthy_def)
qed


subsection \<open>The promise ready\<close>

lemma new_Key_outcome:
  "new_Key P key passphrase email =
     (snd (initialize P fresh key passphrase email (Some resolve)),
      case fst (initialize P fresh key passphrase email (Some resolve)) of
        None \<Rightarrow> Fulfilled | Some e \<Rightarrow> Rejected e)"
  by (simp add: new_Key_def split: prod.split option.split)

text \<open>
  C3. The claim asks that a credential which cannot give a usable key makes the
  constructor throw or rejects \<^verbatim>\<open>ready\<close>. The code does neither: the constructor never
  throws, the executor of \<^verbatim>\<open>ready\<close> has no \<^verbatim>\<open>reject\<close>, and a throw inside the
  \<^verbatim>\<open>async\<close> \<^verbatim>\<open>initialize\<close> rejects only the promise that the call returns, which nothing
  holds. So \<^verbatim>\<open>ready\<close> is never rejected, and whenever \<^verbatim>\<open>initialize\<close> throws an error
  \<open>e\<close>, \<^verbatim>\<open>ready\<close> stays pending for ever. The witness is \<^verbatim>\<open>new Key('xx')\<close>.
\<close>

theorem C3_ready_never_rejected:
  "ready (fst (new_Key P key passphrase email)) \<noteq> Rejected e \<and>
   (snd (new_Key P key passphrase email) = Rejected e \<longrightarrow>
      ready (fst (new_Key P key passphrase email)) = Pending)"
proof -
  obtain res k' where r: "initialize P fresh key passphrase email (Some resolve) = (res, k')"
    by (cases "initialize P fresh key passphrase email (Some resolve)")
  show ?thesis
    using initialize_outcome [where P = P and k = fresh and key = key
                                and passphrase = passphrase and email = email] r
    by (cases res) (simp_all add: new_Key_outcome fresh_def resolve_def)
qed

theorem C3_ready_never_rejected_witness:
  "snd (new_Key demo ''xx'' None None) = Rejected Invalid_prefix \<and>
   ready (fst (new_Key demo ''xx'' None None)) = Pending"
proof -
  have a: "snd (new_Key demo ''xx'' None None) = Rejected Invalid_prefix"
    by (simp add: new_Key_outcome initialize_def Let_def truthy_def)
  from a C3_ready_never_rejected [of demo "''xx''" None None Invalid_prefix]
  show ?thesis by simp
qed

subsection \<open>publicKey on a key that is not ready\<close>

text \<open>
  C4, as amended. \<^verbatim>\<open>publicKey\<close> has no check of its own and throws no error of its own.
  On a Key whose \<^verbatim>\<open>initialize\<close> has thrown, and on a Key whose \<^verbatim>\<open>initialize\<close> has not
  yet assigned anything, \<^verbatim>\<open>_publicKey\<close> is \<^verbatim>\<open>undefined\<close>, and \<^verbatim>\<open>publicKey\<close> hands that
  \<^verbatim>\<open>undefined\<close> to \<^verbatim>\<open>utility.b58cencode\<close>, with the table entry named by the curve read so
  far followed by \<^verbatim>\<open>pk\<close>: its result is the encoder's result, and every failure of
  \<^verbatim>\<open>publicKey\<close> is an exception escaping from the encoder.
\<close>

theorem C4_publicKey_unready:
  "(snd (new_Key P key passphrase email) = Rejected e \<longrightarrow>
      publicKey P (fst (new_Key P key passphrase email)) =
        (case b58cencode P None
                (prefix P (template (curve (fst (new_Key P key passphrase email))) @ ''pk'')) of
           Inl x \<Rightarrow> Inl (Thrown x)
         | Inr s \<Rightarrow> Inr s))
   \<and> publicKey P fresh =
        (case b58cencode P None (prefix P ''undefinedpk'') of
           Inl x \<Rightarrow> Inl (Thrown x)
         | Inr s \<Rightarrow> Inr s)
   \<and> (publicKey P k = Inl err \<longrightarrow> (\<exists>x. err = Thrown x))"
proof (intro conjI impI)
  assume a: "snd (new_Key P key passphrase email) = Rejected e"
  obtain res k' where r: "initialize P fresh key passphrase email (Some resolve) = (res, k')"
    by (cases "initialize P fresh key passphrase email (Some resolve)")
  with a have "res = Some e" by (cases res) (simp_all add: new_Key_outcome)
  with r initialize_outcome [where P = P and k = fresh and key = key
                                and passphrase = passphrase and email = email]
  have "f_publicKey (fst (new_Key P key passphrase email)) = None"
    by (simp add: new_Key_outcome fresh_def)
  then show "publicKey P (fst (new_Key P key passphrase email)) =
        (case b58cencode P None
                (prefix P (template (curve (fst (new_Key P key passphrase email))) @ ''pk'')) of
           Inl x \<Rightarrow> Inl (Thrown x)
         | Inr s \<Rightarrow> Inr s)"
    by (simp add: publicKey_def)
next
  show "publicKey P fresh =
        (case b58cencode P None (prefix P ''undefinedpk'') of
           Inl x \<Rightarrow> Inl (Thrown x)
         | Inr s \<Rightarrow> Inr s)"
    by (simp add: publicKey_def fresh_def template_def)
next
  assume "publicKey P k = Inl err"
  then show "\<exists>x. err = Thrown x"
    by (auto simp: publicKey_def split: sum.splits)
qed

theorem C4_publicKey_unready_witness:
  "snd (new_Key demo ''xx'' None None) = Rejected Invalid_prefix \<and>
   publicKey demo (fst (new_Key demo ''xx'' None None)) =
     (case b58cencode demo None (prefix demo ''xxpk'') of
        Inl x \<Rightarrow> Inl (Thrown x)
      | Inr s \<Rightarrow> Inr s)"
proof -
  have a: "snd (new_Key demo ''xx'' None None) = Rejected Invalid_prefix"
    by (simp add: new_Key_outcome initialize_def Let_def truthy_def)
  have b: "template (curve (fst (new_Key demo ''xx'' None None))) @ ''pk'' = ''xxpk''"
    by (simp add: new_Key_outcome initialize_def Let_def truthy_def template_def)
  from C4_publicKey_unready [THEN conjunct1, THEN mp, OF a] b a
  show ?thesis by simp
qed

text \<open>
  C4 as stated fails: after \<^verbatim>\<open>new Key('xx')\<close>, whose \<^verbatim>\<open>initialize\<close> throws, and on the
  object before \<^verbatim>\<open>initialize\<close> has run, \<^verbatim>\<open>publicKey()\<close> does not fail with an error of
  the class about its state; what comes out is the TypeError that the encoder throws
  on reading the length of \<^verbatim>\<open>undefined\<close>.
\<close>

theorem C4_counterexample:
  "snd (new_Key demo ''xx'' None None) = Rejected Invalid_prefix \<and>
   publicKey demo (fst (new_Key demo ''xx'' None None)) =
     Inl (Thrown (Exn ''Cannot read property length of undefined'')) \<and>
   publicKey demo fresh = Inl (Thrown (Exn ''Cannot read property length of undefined''))"
  by code_simp

subsection \<open>No secret key without isSecret\<close>

text \<open>
  C8. For a Key made by the constructor, whatever the credential and however
  \<^verbatim>\<open>initialize\<close> ends, \<^verbatim>\<open>_secretKey\<close> is \<^verbatim>\<open>undefined\<close> unless \<^verbatim>\<open>_isSecret\<close> is true.
  And on any object, a run of \<^verbatim>\<open>initialize\<close> that returns normally has set \<^verbatim>\<open>_isSecret\<close>,
  and has cleared \<^verbatim>\<open>_secretKey\<close> when it set \<^verbatim>\<open>_isSecret\<close> to false (line 161).
\<close>

theorem C8_secret_absent:
  "(f_isSecret (fst (new_Key P key passphrase email)) \<noteq> Some True \<longrightarrow>
      f_secretKey (fst (new_Key P key passphrase email)) = None)
   \<and> (initialize P k key passphrase email (Some resolve) = (None, k') \<longrightarrow>
        f_isSecret k' \<noteq> None \<and> (f_isSecret k' = Some False \<longrightarrow> f_secretKey k' = None))"
proof (intro conjI impI)
  assume a: "f_isSecret (fst (new_Key P key passphrase email)) \<noteq> Some True"
  obtain res k1 where r: "initialize P fresh key passphrase email (Some resolve) = (res, k1)"
    by (cases "initialize P fresh key passphrase email (Some resolve)")
  with a initialize_outcome [where P = P and k = fresh and key = key
                                and passphrase = passphrase and email = email]
  show "f_secretKey (fst (new_Key P key passphrase email)) = None"
    by (cases res) (simp_all add: new_Key_outcome fresh_def)
next
  assume "initialize P k key passphrase email (Some resolve) = (None, k')"
  with initialize_outcome [where P = P and k = k and key = key
                                and passphrase = passphrase and email = email]
  show "f_isSecret k' \<noteq> None" by simp
next
  assume "initialize P k key passphrase email (Some resolve) = (None, k')"
    and "f_isSecret k' = Some False"
  with initialize_outcome [where P = P and k = k and key = key
                                and passphrase = passphrase and email = email]
  show "f_secretKey k' = None" by simp
qed

theorem C8_secret_absent_witness:
  "f_isSecret (fst (new_Key demo ''p2pk67wVncLFS1DQDm2gVR45sYCzQSXTtqn3bviNYXVCq6WRoqtxHXL''
      None None)) = Some False \<and>
   f_secretKey (fst (new_Key demo ''p2pk67wVncLFS1DQDm2gVR45sYCzQSXTtqn3bviNYXVCq6WRoqtxHXL''
      None None)) = None"
proof -
  have a: "f_isSecret (fst (new_Key demo
      ''p2pk67wVncLFS1DQDm2gVR45sYCzQSXTtqn3bviNYXVCq6WRoqtxHXL'' None None)) = Some False"
    using p2_public_key_run by (simp add: new_Key_def resolve_def fresh_def)
  then have b: "f_isSecret (fst (new_Key demo
      ''p2pk67wVncLFS1DQDm2gVR45sYCzQSXTtqn3bviNYXVCq6WRoqtxHXL'' None None)) \<noteq> Some True"
    by simp
  from a C8_secret_absent [THEN conjunct1, THEN mp, OF b] show ?thesis by simp
qed

subsection \<open>Runs of the concrete provider on the documented key\<close>

lemma ed_secret_key_ready:
  assumes "\<not> truthy email" and "take 2 key = ''ed''" and "take 2 (drop 2 key) = ''sk''"
    and "length key \<in> set [54, 55, 88, 98]"
    and "b58cdecode P key (prefix P ''edsk'') = Inr decoded"
    and "length decoded = 64"
  shows "initialize P k key passphrase email (Some resolve) =
           (None, resolve (k\<lparr>curve := Some ''ed'', f_isSecret := Some True,
                              f_secretKey := Some decoded,
                              f_publicKey := Some (drop 32 decoded)\<rparr>))"
proof -
  have "take 1 (drop 2 key) \<noteq> ''e''"
    using assms(3) by (rule tag_not_e) simp
  with assms show ?thesis
    by (simp add: initialize_def Let_def call_def template_def)
qed

lemma doc_key_decoded: "b58cdecode demo doc_key (prefix demo ''edsk'') = Inr doc_secret"
proof -
  have p: "prefix demo ''edsk'' = Some [43, 246, 78, 7]"
    by (simp add: demo_def demo_prefix_def)
  show ?thesis
    unfolding p
    by (rule demo_decoded(1) [where c = "[66, 102, 73, 168]"]) (code_simp, simp, code_simp)
qed

lemma doc_key_ready: "new_Key demo doc_key None None = (doc_Key, Fulfilled)"
proof -
  have l: "length doc_secret = 64" by (simp add: doc_secret_def)
  have i: "initialize demo fresh doc_key None None (Some resolve) =
           (None, resolve (fresh\<lparr>curve := Some ''ed'', f_isSecret := Some True,
                              f_secretKey := Some doc_secret,
                              f_publicKey := Some (drop 32 doc_secret)\<rparr>))"
    by (rule ed_secret_key_ready [OF _ _ _ _ doc_key_decoded l])
       (simp_all add: truthy_def doc_key_def)
  show ?thesis
    unfolding new_Key_def i by (simp add: resolve_def doc_Key_def fresh_def)
qed

lemma doc_key_sign:
  "sign demo doc_Key ''00ab'' None =
     Inr \<lparr>r_bytes = ''00ab'',
          r_sig = ''sigfDoF4QLuaTXTnpVxF55cGk4JgncY28bpsS8dqC4LmpDzSWQ3CNNT6AmjvFYemmfEL5ubGPPuJBhQziq8XjLiNFRaEWRyw'',
          r_edsig = ''edsigtq3GN7dFBWeZWyoo6GvGZa2a5WsYWf1CCZBsNBC3M7qBJGSzY6HTY9QgnWsLkEx1fsZXWnAkjv9U9nm2ng5JuRKXXBLNUw'',
          r_sbytes = ''00ab83b87dd237acb146eba0e5ba9f94192e53884da2077c8116bb70b58a6f64e9fe23581d72d74c51e68b40855a3f34b9cef328ed42a71c21b65b10552a0f04899e''\<rparr>"
proof -
  let ?digest = "[234, 115, 100, 213, 222, 151, 24, 121, 210, 59, 204, 157, 198, 95, 128,
                  65, 186, 3, 52, 101, 174, 39, 232, 9, 162, 203, 156, 45, 150, 239, 80,
                  209] :: bytes"
  have c: "curve doc_Key = Some ''ed''" and k: "f_secretKey doc_Key = Some doc_secret"
    by (simp_all add: doc_Key_def)
  have h: "hex2buf demo ''00ab'' = Inr [0, 171]" by code_simp
  have g: "crypto_generichash demo 32 (Some [0, 171]) = Inr ?digest" by code_simp
  have s: "crypto_sign_detached demo ?digest (Some doc_secret) = Inr doc_signature" by code_simp
  have x: "buf2hex demo doc_signature =
     ''83b87dd237acb146eba0e5ba9f94192e53884da2077c8116bb70b58a6f64e9fe23581d72d74c51e68b40855a3f34b9cef328ed42a71c21b65b10552a0f04899e''"
    by code_simp
  have p1: "prefix demo ''edsig'' = Some [9, 245, 205, 134, 18]"
    and p2: "prefix demo ''sig'' = Some [4, 130, 43]"
    by (simp_all add: demo_def demo_prefix_def)
  have e1: "b58cencode demo (Some doc_signature) (Some [9, 245, 205, 134, 18]) =
     Inr ''edsigtq3GN7dFBWeZWyoo6GvGZa2a5WsYWf1CCZBsNBC3M7qBJGSzY6HTY9QgnWsLkEx1fsZXWnAkjv9U9nm2ng5JuRKXXBLNUw''"
    by (rule demo_b58cencode_agree) code_simp
  have e2: "b58cencode demo (Some doc_signature) (Some [4, 130, 43]) =
     Inr ''sigfDoF4QLuaTXTnpVxF55cGk4JgncY28bpsS8dqC4LmpDzSWQ3CNNT6AmjvFYemmfEL5ubGPPuJBhQziq8XjLiNFRaEWRyw''"
    by (rule demo_b58cencode_agree) code_simp
  show ?thesis
    by (simp add: sign_def Let_def c k h g s x p1 p2 e1 e2)
qed

lemma doc_key_verify:
  "verify demo doc_Key ''00ab''
     ''sigfDoF4QLuaTXTnpVxF55cGk4JgncY28bpsS8dqC4LmpDzSWQ3CNNT6AmjvFYemmfEL5ubGPPuJBhQziq8XjLiNFRaEWRyw''
   = Inl Signature_invalid"
  by code_simp

subsection \<open>Signing and verifying\<close>

text \<open>
  C2. The claim asks that \<^verbatim>\<open>verify\<close> accepts the \<^verbatim>\<open>sig\<close> that \<^verbatim>\<open>sign\<close> returns for the
  same message and Key. \<^verbatim>\<open>sign\<close> signs the 32-byte generic hash of the message bytes and
  returns the signature in base58check text. \<^verbatim>\<open>verify\<close> hands that text, not its
  decoding, to \<^verbatim>\<open>crypto_sign_verify_detached\<close>, together with the message bytes, not
  their hash. The text of a 64-byte signature is longer than 64 characters, the
  primitive throws on a signature that is not 64 bytes long, and \<^verbatim>\<open>verify\<close> turns the
  exception into 'Signature is invalid.'. Here the code is run on the key of the class
  documentation and the message \<^verbatim>\<open>00ab\<close>: the Key is Ready, \<^verbatim>\<open>sign\<close> succeeds, and
  \<^verbatim>\<open>verify\<close> rejects its \<^verbatim>\<open>sig\<close>.
\<close>

theorem C2_roundtrip_fails:
  "new_Key demo doc_key None None = (doc_Key, Fulfilled) \<and>
   ready doc_Key = Fulfilled \<and> curve doc_Key = Some ''ed'' \<and> f_isSecret doc_Key = Some True \<and>
   sign demo doc_Key ''00ab'' None =
     Inr \<lparr>r_bytes = ''00ab'',
          r_sig = ''sigfDoF4QLuaTXTnpVxF55cGk4JgncY28bpsS8dqC4LmpDzSWQ3CNNT6AmjvFYemmfEL5ubGPPuJBhQziq8XjLiNFRaEWRyw'',
          r_edsig = ''edsigtq3GN7dFBWeZWyoo6GvGZa2a5WsYWf1CCZBsNBC3M7qBJGSzY6HTY9QgnWsLkEx1fsZXWnAkjv9U9nm2ng5JuRKXXBLNUw'',
          r_sbytes = ''00ab83b87dd237acb146eba0e5ba9f94192e53884da2077c8116bb70b58a6f64e9fe23581d72d74c51e68b40855a3f34b9cef328ed42a71c21b65b10552a0f04899e''\<rparr> \<and>
   verify demo doc_Key ''00ab''
     ''sigfDoF4QLuaTXTnpVxF55cGk4JgncY28bpsS8dqC4LmpDzSWQ3CNNT6AmjvFYemmfEL5ubGPPuJBhQziq8XjLiNFRaEWRyw''
     = Inl Signature_invalid"
  using doc_key_ready doc_key_sign doc_key_verify by (simp add: doc_Key_def)

text \<open>
  The signature of that run is genuine for the stand-in scheme: the primitive accepts
  its bytes against the hash of the message. The rejection comes from what \<^verbatim>\<open>verify\<close>
  passes to the primitive.
\<close>

lemma doc_signature_genuine:
  "crypto_generichash demo 32 (Some [0, 171]) =
     Inr [234, 115, 100, 213, 222, 151, 24, 121, 210, 59, 204, 157, 198, 95, 128, 65, 186,
          3, 52, 101, 174, 39, 232, 9, 162, 203, 156, 45, 150, 239, 80, 209] \<and>
   crypto_sign_verify_detached demo (Bytes doc_signature)
     [234, 115, 100, 213, 222, 151, 24, 121, 210, 59, 204, 157, 198, 95, 128, 65, 186, 3,
      52, 101, 174, 39, 232, 9, 162, 203, 156, 45, 150, 239, 80, 209]
     (drop 32 doc_secret) = Inr True"
  by code_simp

subsection \<open>The fundraiser derivation\<close>

lemma fundraiser_fst:
  "fst (fundraiser P k1 key passphrase email (Some resolve)) =
   fst (fundraiser P k2 key passphrase email (Some resolve))"
  by (simp add: fundraiser_def call_def split: sum.split prod.split)

lemma fundraiser_success:
  assumes "fst (fundraiser P k key passphrase email (Some resolve)) = None"
  shows "\<exists>seed pub priv.
           pbkdf2Sync P (Text key)
             (Text (''mnemonic'' @ normalize_NFKD P
                (textDecode P (textEncode P (template email @ template passphrase)))))
             2048 64 ''sha512'' = Inr seed \<and>
           crypto_sign_seed_keypair P (take 32 seed) = Inr (pub, priv) \<and>
           f_publicKey (snd (fundraiser P k key passphrase email (Some resolve))) = Some pub \<and>
           curve (snd (fundraiser P k key passphrase email (Some resolve))) = Some ''ed''"
  using assms
  by (auto simp: fundraiser_def call_def resolve_def split: if_splits sum.splits prod.splits)

text \<open>
  C7. With an email, the outcome of \<^verbatim>\<open>initialize\<close> and, when it returns normally, the
  result of \<^verbatim>\<open>publicKeyHash\<close> are the same on any two objects, whatever their fields held
  before: they are functions of the triple (mnemonic, email, passphrase) alone. The
  hash is the tz1 encoding of the 20-byte generic hash of the public key that the seed
  expansion gives for the first 32 bytes of the PBKDF2 stretch of the mnemonic with the
  salt \<^verbatim>\<open>mnemonic\<close> followed by the normalized email and passphrase. Two Keys made by the
  constructor from the same triple are the case where both objects are fresh.
\<close>

theorem C7_fundraiser_deterministic:
  assumes "truthy email"
  shows "fst (initialize P k1 mnemonic passphrase email (Some resolve)) =
         fst (initialize P k2 mnemonic passphrase email (Some resolve))
       \<and> (fst (initialize P k1 mnemonic passphrase email (Some resolve)) = None \<longrightarrow>
            publicKeyHash P (snd (initialize P k1 mnemonic passphrase email (Some resolve))) =
            publicKeyHash P (snd (initialize P k2 mnemonic passphrase email (Some resolve)))
          \<and> (\<exists>seed pub priv.
                pbkdf2Sync P (Text mnemonic)
                  (Text (''mnemonic'' @ normalize_NFKD P
                     (textDecode P (textEncode P (template email @ template passphrase)))))
                  2048 64 ''sha512'' = Inr seed \<and>
                crypto_sign_seed_keypair P (take 32 seed) = Inr (pub, priv) \<and>
                publicKeyHash P (snd (initialize P k1 mnemonic passphrase email (Some resolve))) =
                  (case crypto_generichash P 20 (Some pub) of
                     Inl x \<Rightarrow> Inl (Thrown x)
                   | Inr h \<Rightarrow>
                       (case b58cencode P (Some h) (prefix P ''tz1'') of
                          Inl x \<Rightarrow> Inl (Thrown x)
                        | Inr s \<Rightarrow> Inr s))))"
proof (intro conjI impI)
  show "fst (initialize P k1 mnemonic passphrase email (Some resolve)) =
        fst (initialize P k2 mnemonic passphrase email (Some resolve))"
    using assms fundraiser_fst [of P k1 mnemonic passphrase email k2]
    by (simp add: initialize_stages)
next
  assume "fst (initialize P k1 mnemonic passphrase email (Some resolve)) = None"
  with assms have a: "fst (fundraiser P k1 mnemonic passphrase email (Some resolve)) = None"
    and b: "fst (fundraiser P k2 mnemonic passphrase email (Some resolve)) = None"
    using fundraiser_fst [of P k1 mnemonic passphrase email k2]
    by (simp_all add: initialize_stages)
  from fundraiser_success [OF a] fundraiser_success [OF b] assms
  show "publicKeyHash P (snd (initialize P k1 mnemonic passphrase email (Some resolve))) =
        publicKeyHash P (snd (initialize P k2 mnemonic passphrase email (Some resolve)))"
    by (auto simp: initialize_stages publicKeyHash_def cong: sum.case_cong)
  from fundraiser_success [OF a] assms
  show "\<exists>seed pub priv.
                pbkdf2Sync P (Text mnemonic)
                  (Text (''mnemonic'' @ normalize_NFKD P
                     (textDecode P (textEncode P (template email @ template passphrase)))))
                  2048 64 ''sha512'' = Inr seed \<and>
                crypto_sign_seed_keypair P (take 32 seed) = Inr (pub, priv) \<and>
                publicKeyHash P (snd (initialize P k1 mnemonic passphrase email (Some resolve))) =
                  (case crypto_generichash P 20 (Some pub) of
                     Inl x \<Rightarrow> Inl (Thrown x)
                   | Inr h \<Rightarrow>
                       (case b58cencode P (Some h) (prefix P ''tz1'') of
                          Inl x \<Rightarrow> Inl (Thrown x)
                        | Inr s \<Rightarrow> Inr s))"
    by (auto simp: initialize_stages publicKeyHash_def prefixMap_def cong: sum.case_cong)
qed

theorem C7_fundraiser_deterministic_witness:
  "truthy (Some ''a@b.c'') \<and>
   fst (initialize demo fresh ''some words'' (Some ''pw'') (Some ''a@b.c'') (Some resolve)) = None \<and>
   publicKeyHash demo
     (snd (initialize demo fresh ''some words'' (Some ''pw'') (Some ''a@b.c'') (Some resolve))) =
     Inr ''tz1fFMSXuSx5mgp8euowtNckTJCuApMhbekh'' \<and>
   publicKeyHash demo
     (snd (initialize demo (set_isLedger True fresh) ''some words'' (Some ''pw'') (Some ''a@b.c'')
        (Some resolve))) =
     Inr ''tz1fFMSXuSx5mgp8euowtNckTJCuApMhbekh''"
proof -
  have a: "truthy (Some ''a@b.c'')" by (simp add: truthy_def)
  have b: "fst (initialize demo fresh ''some words'' (Some ''pw'') (Some ''a@b.c'') (Some resolve)) = None"
    by code_simp
  have c: "publicKeyHash demo
     (snd (initialize demo fresh ''some words'' (Some ''pw'') (Some ''a@b.c'') (Some resolve))) =
     Inr ''tz1fFMSXuSx5mgp8euowtNckTJCuApMhbekh''"
    by code_simp
  from C7_fundraiser_deterministic [OF a, THEN conjunct2, THEN mp, OF b, THEN conjunct1,
         of "set_isLedger True fresh"] c
  have d: "publicKeyHash demo
     (snd (initialize demo (set_isLedger True fresh) ''some words'' (Some ''pw'') (Some ''a@b.c'')
        (Some resolve))) =
     Inr ''tz1fFMSXuSx5mgp8euowtNckTJCuApMhbekh''"
    by simp
  show ?thesis by (rule conjI [OF a conjI [OF b conjI [OF c d]]])
qed

subsection \<open>secretKey\<close>

text \<open>
  C9. \<^verbatim>\<open>secretKey\<close> throws 'Secret key not known.' (the spec's NoSecretKey) exactly when
  \<^verbatim>\<open>_secretKey\<close> is \<^verbatim>\<open>undefined\<close>. With a secret key on an ed Key it expands the first
  32 bytes of the stored secret into a keypair again and encodes the private key of
  that pair with the prefix \<^verbatim>\<open>edsk\<close>; on another curve it encodes the stored bytes with
  the prefix of the curve. It returns a value and assigns nothing.
\<close>

theorem C9_secretKey:
  "(secretKey P k = Inl Secret_key_not_known \<longleftrightarrow> f_secretKey k = None)
   \<and> (f_secretKey k = Some sk \<and> curve k = Some ''ed'' \<longrightarrow>
        secretKey P k =
          (case crypto_sign_seed_keypair P (take 32 sk) of
             Inl x \<Rightarrow> Inl (Thrown x)
           | Inr (pub, priv) \<Rightarrow>
               (case b58cencode P (Some priv) (prefix P ''edsk'') of
                  Inl x \<Rightarrow> Inl (Thrown x)
                | Inr s \<Rightarrow> Inr s)))
   \<and> (f_secretKey k = Some sk \<and> curve k \<noteq> Some ''ed'' \<longrightarrow>
        secretKey P k =
          (case b58cencode P (Some sk) (prefix P (template (curve k) @ ''sk'')) of
             Inl x \<Rightarrow> Inl (Thrown x)
           | Inr s \<Rightarrow> Inr s))"
  by (auto simp: secretKey_def template_def split: option.splits sum.splits prod.splits)

theorem C9_secretKey_witness:
  "f_secretKey (fresh\<lparr>curve := Some ''ed''\<rparr>) = None \<and>
   secretKey demo (fresh\<lparr>curve := Some ''ed''\<rparr>) = Inl Secret_key_not_known \<and>
   curve doc_Key = Some ''ed'' \<and>
   f_secretKey doc_Key = Some doc_secret \<and>
   secretKey demo doc_Key \<noteq> Inl Secret_key_not_known"
proof -
  have a: "f_secretKey (fresh\<lparr>curve := Some ''ed''\<rparr>) = None" by (simp add: fresh_def)
  have b: "curve doc_Key = Some ''ed''" by (simp add: doc_Key_def)
  have c: "f_secretKey doc_Key = Some doc_secret" by (simp add: doc_Key_def)
  from a C9_secretKey [THEN conjunct1, of demo "fresh\<lparr>curve := Some ''ed''\<rparr>"]
  have d: "secretKey demo (fresh\<lparr>curve := Some ''ed''\<rparr>) = Inl Secret_key_not_known" by simp
  from c C9_secretKey [THEN conjunct1, of demo doc_Key]
  have e: "secretKey demo doc_Key \<noteq> Inl Secret_key_not_known" by simp
  show ?thesis by (rule conjI [OF a conjI [OF d conjI [OF b conjI [OF c e]]]])
qed

subsection \<open>sign on a Key without a secret key\<close>

text \<open>
  C10. On an ed Key whose \<^verbatim>\<open>_secretKey\<close> is \<^verbatim>\<open>undefined\<close>, \<^verbatim>\<open>sign\<close> does not throw
  'Secret key not known.': it has no check, and once the message is decoded and hashed
  it calls \<^verbatim>\<open>crypto_sign_detached\<close> with \<^verbatim>\<open>undefined\<close> for the private key; what follows
  is the primitive's doing.
\<close>

theorem C10_sign_without_secret:
  assumes "curve k = Some ''ed''" and "f_secretKey k = None"
  shows "sign P k msg watermark \<noteq> Inl Secret_key_not_known
       \<and> (hex2buf P msg = Inr bb0 \<and>
            crypto_generichash P 32
              (Some (case watermark of None \<Rightarrow> bb0 | Some w \<Rightarrow> mergebuf P w bb0)) = Inr digest \<longrightarrow>
            sign P k msg watermark =
              (case crypto_sign_detached P digest None of
                 Inl x \<Rightarrow> Inl (Thrown x)
               | Inr sg \<Rightarrow>
                   (case b58cencode P (Some sg) (prefix P ''edsig'') of
                      Inl x \<Rightarrow> Inl (Thrown x)
                    | Inr edsig \<Rightarrow>
                        (case b58cencode P (Some sg) (prefix P ''sig'') of
                           Inl x \<Rightarrow> Inl (Thrown x)
                         | Inr s \<Rightarrow>
                             Inr \<lparr>r_bytes = msg, r_sig = s, r_edsig = edsig,
                                  r_sbytes = msg @ buf2hex P sg\<rparr>))))"
proof (intro conjI impI)
  show "sign P k msg watermark \<noteq> Inl Secret_key_not_known"
    using assms by (simp add: sign_def Let_def split: sum.split)
next
  assume "hex2buf P msg = Inr bb0 \<and>
            crypto_generichash P 32
              (Some (case watermark of None \<Rightarrow> bb0 | Some w \<Rightarrow> mergebuf P w bb0)) = Inr digest"
  with assms show "sign P k msg watermark =
              (case crypto_sign_detached P digest None of
                 Inl x \<Rightarrow> Inl (Thrown x)
               | Inr sg \<Rightarrow>
                   (case b58cencode P (Some sg) (prefix P ''edsig'') of
                      Inl x \<Rightarrow> Inl (Thrown x)
                    | Inr edsig \<Rightarrow>
                        (case b58cencode P (Some sg) (prefix P ''sig'') of
                           Inl x \<Rightarrow> Inl (Thrown x)
                         | Inr s \<Rightarrow>
                             Inr \<lparr>r_bytes = msg, r_sig = s, r_edsig = edsig,
                                  r_sbytes = msg @ buf2hex P sg\<rparr>)))"
    by (simp add: sign_def Let_def cong: sum.case_cong)
qed

lemma ed_public_key_run:
  "initialize demo fresh ''edpkuZWgrKbNiwAVZ42RnEiNwm2ipohxbPWXsxpofSLFDqcHjKnypg''
     None None (Some resolve) =
   (None,
    resolve (fresh\<lparr>curve := Some ''ed'', f_isSecret := Some False,
                    f_publicKey := Some (drop 32 doc_secret), f_secretKey := None\<rparr>))"
proof -
  let ?K = "''edpkuZWgrKbNiwAVZ42RnEiNwm2ipohxbPWXsxpofSLFDqcHjKnypg''"
  have p: "prefix demo ''edpk'' = Some [13, 15, 37, 217]"
    by (simp add: demo_def demo_prefix_def)
  have d: "b58cdecode demo ?K (prefix demo ''edpk'') = Inr (drop 32 doc_secret)"
    unfolding p
    by (rule demo_decoded(1) [where c = "[120, 130, 182, 149]"]) (code_simp, simp, code_simp)
  have t: "\<not> truthy None" by (simp add: truthy_def)
  have "initialize demo fresh ?K None None (Some resolve) =
          (case b58cdecode demo ?K (prefix demo (take 2 ?K @ ''pk'')) of
             Inl x \<Rightarrow>
               (Some (Thrown x), fresh\<lparr>curve := Some (take 2 ?K), f_isSecret := Some False\<rparr>)
           | Inr decoded \<Rightarrow>
               (case decrypt demo None (take 1 (drop 2 ?K) = ''e'') decoded of
                  Inl e \<Rightarrow>
                    (Some e, fresh\<lparr>curve := Some (take 2 ?K), f_isSecret := Some False\<rparr>)
                | Inr kb \<Rightarrow>
                    call (Some resolve)
                      (fresh\<lparr>curve := Some (take 2 ?K), f_isSecret := Some False,
                             f_publicKey := Some kb, f_secretKey := None\<rparr>)))"
    by (rule public_key_run [OF t]) simp_all
  also have "take 2 ?K @ ''pk'' = ''edpk''" by simp
  finally show ?thesis
    by (simp add: d decrypt_def call_def)
qed

theorem C10_sign_without_secret_witness:
  "curve (fst (new_Key demo ''edpkuZWgrKbNiwAVZ42RnEiNwm2ipohxbPWXsxpofSLFDqcHjKnypg'' None None))
     = Some ''ed'' \<and>
   f_secretKey (fst (new_Key demo ''edpkuZWgrKbNiwAVZ42RnEiNwm2ipohxbPWXsxpofSLFDqcHjKnypg'' None None))
     = None \<and>
   ready (fst (new_Key demo ''edpkuZWgrKbNiwAVZ42RnEiNwm2ipohxbPWXsxpofSLFDqcHjKnypg'' None None))
     = Fulfilled \<and>
   sign demo (fst (new_Key demo ''edpkuZWgrKbNiwAVZ42RnEiNwm2ipohxbPWXsxpofSLFDqcHjKnypg'' None None))
     ''00ab'' None \<noteq> Inl Secret_key_not_known \<and>
   sign demo (fst (new_Key demo ''edpkuZWgrKbNiwAVZ42RnEiNwm2ipohxbPWXsxpofSLFDqcHjKnypg'' None None))
     ''00ab'' None = Inl (Thrown (Exn ''unsupported input type for privateKey''))"
proof -
  let ?K = "fst (new_Key demo ''edpkuZWgrKbNiwAVZ42RnEiNwm2ipohxbPWXsxpofSLFDqcHjKnypg'' None None)"
  let ?R = "fresh\<lparr>curve := Some ''ed'', f_isSecret := Some False,
                  f_publicKey := Some (drop 32 doc_secret), f_secretKey := None,
                  ready := Fulfilled\<rparr>"
  have k: "?K = ?R"
    using ed_public_key_run by (simp add: new_Key_def resolve_def fresh_def)
  have a: "curve ?K = Some ''ed''" by (simp add: k)
  have b: "f_secretKey ?K = None" by (simp add: k)
  have c: "ready ?K = Fulfilled" by (simp add: k)
  have d: "sign demo ?K ''00ab'' None \<noteq> Inl Secret_key_not_known"
    by (rule C10_sign_without_secret [OF a b, THEN conjunct1])
  have "sign demo ?R ''00ab'' None = Inl (Thrown (Exn ''unsupported input type for privateKey''))"
    by code_simp
  then have e: "sign demo ?K ''00ab'' None =
      Inl (Thrown (Exn ''unsupported input type for privateKey''))"
    by (simp only: k)
  show ?thesis by (rule conjI [OF a conjI [OF b conjI [OF c conjI [OF d e]]]])
qed

subsection \<open>The prefix used for decoding\<close>

lemma decrypt_prefix:
  "decrypt (P\<lparr>prefix := f\<rparr>) passphrase encrypted decoded = decrypt P passphrase encrypted decoded"
  by (simp add: decrypt_def cong: sum.case_cong)

lemma derive_prefix: "derive (P\<lparr>prefix := f\<rparr>) k2 kb ready_fn = derive P k2 kb ready_fn"
  by (simp add: derive_def Let_def cong: sum.case_cong if_cong)

lemma fundraiser_prefix:
  "fundraiser (P\<lparr>prefix := f\<rparr>) k key passphrase email ready_fn =
   fundraiser P k key passphrase email ready_fn"
  by (simp add: fundraiser_def cong: sum.case_cong)

lemma decode_prefix:
  assumes "f (if t = ''sk'' then c @ (if encrypted then ''e'' else []) @ ''sk'' else c @ ''pk'') =
           prefix P (if t = ''sk'' then c @ (if encrypted then ''e'' else []) @ ''sk'' else c @ ''pk'')"
  shows "decode (P\<lparr>prefix := f\<rparr>) (k\<lparr>curve := Some c, f_isSecret := Some (t = ''sk'')\<rparr>) key encrypted =
         decode P (k\<lparr>curve := Some c, f_isSecret := Some (t = ''sk'')\<rparr>) key encrypted"
  using assms by (simp add: decode_def template_def split: if_splits)

text \<open>
  \<^verbatim>\<open>initialize\<close> reads no other entry of the prefix table than the one it decodes with:
  a table that agrees with the given one on that entry gives the same run.
\<close>

lemma initialize_reads_one_entry:
  assumes "f (if (if take 1 (drop 2 key) = ''e'' then take 2 (drop 3 key) else take 2 (drop 2 key)) = ''sk''
              then take 2 key @ (if take 1 (drop 2 key) = ''e'' then ''e'' else []) @ ''sk''
              else take 2 key @ ''pk'') =
           prefix P
             (if (if take 1 (drop 2 key) = ''e'' then take 2 (drop 3 key) else take 2 (drop 2 key)) = ''sk''
              then take 2 key @ (if take 1 (drop 2 key) = ''e'' then ''e'' else []) @ ''sk''
              else take 2 key @ ''pk'')"
  shows "initialize (P\<lparr>prefix := f\<rparr>) k key passphrase email ready_fn =
         initialize P k key passphrase email ready_fn"
proof -
  note d = decode_prefix [where f = f and P = P and c = "take 2 key"
             and t = "if take 1 (drop 2 key) = ''e'' then take 2 (drop 3 key) else take 2 (drop 2 key)"
             and encrypted = "take 1 (drop 2 key) = ''e''", OF assms]
  have "encoded (P\<lparr>prefix := f\<rparr>) k key passphrase ready_fn = encoded P k key passphrase ready_fn"
    by (simp only: encoded_def Let_def decrypt_prefix derive_prefix d)
  then show ?thesis
    by (simp only: initialize_stages fundraiser_prefix)
qed

text \<open>
  The string of the examples below has the curve \<^verbatim>\<open>ed\<close>, the marker \<^verbatim>\<open>e\<close> and the tag
  \<^verbatim>\<open>pk\<close>, 55 characters and valid check bytes. Its 37 bytes before the check bytes
  are four bytes and a payload of 33.
\<close>

lemma encrypted_public_key_decoded:
  "b58cdecode demo ''edepkuZWgrKbNiwAVZ42RnEiNwm2ipohxbPWXsxpofSLFDqcHkbY1tQ''
     (Some [13, 15, 37, 217]) =
   Inr [123, 114, 17, 70, 74, 151, 154, 188, 162, 76, 201, 199, 84, 62, 69, 41, 253, 66,
        184, 79, 8, 125, 183, 68, 47, 98, 101, 191, 2, 141, 212, 132, 104]"
  "b58cdecode demo ''edepkuZWgrKbNiwAVZ42RnEiNwm2ipohxbPWXsxpofSLFDqcHkbY1tQ'' None =
   Inl (Exn ''Cannot read property length of undefined'')"
proof -
  have a: "b58_agree ''edepkuZWgrKbNiwAVZ42RnEiNwm2ipohxbPWXsxpofSLFDqcHkbY1tQ''
     (([2, 245, 95, 92] @
       [123, 114, 17, 70, 74, 151, 154, 188, 162, 76, 201, 199, 84, 62, 69, 41, 253, 66,
        184, 79, 8, 125, 183, 68, 47, 98, 101, 191, 2, 141, 212, 132, 104]) @
      [170, 64, 47, 253])"
    by code_simp
  have b: "length [170, 64, 47, 253 :: byte] = 4" by simp
  have c: "demo_checksum
     ([2, 245, 95, 92] @
       [123, 114, 17, 70, 74, 151, 154, 188, 162, 76, 201, 199, 84, 62, 69, 41, 253, 66,
        184, 79, 8, 125, 183, 68, 47, 98, 101, 191, 2, 141, 212, 132, 104]) =
     [170, 64, 47, 253]"
    by code_simp
  show "b58cdecode demo ''edepkuZWgrKbNiwAVZ42RnEiNwm2ipohxbPWXsxpofSLFDqcHkbY1tQ''
     (Some [13, 15, 37, 217]) =
   Inr [123, 114, 17, 70, 74, 151, 154, 188, 162, 76, 201, 199, 84, 62, 69, 41, 253, 66,
        184, 79, 8, 125, 183, 68, 47, 98, 101, 191, 2, 141, 212, 132, 104]"
    using a c by (simp add: demo_def demo_b58cdecode_def b58decode_agree)
  show "b58cdecode demo ''edepkuZWgrKbNiwAVZ42RnEiNwm2ipohxbPWXsxpofSLFDqcHkbY1tQ'' None =
   Inl (Exn ''Cannot read property length of undefined'')"
    by (rule demo_decoded(2) [OF a b c])
qed

lemma encrypted_public_key_decrypt:
  "decrypt demo (Some ''pw'') True
     [123, 114, 17, 70, 74, 151, 154, 188, 162, 76, 201, 199, 84, 62, 69, 41, 253, 66,
      184, 79, 8, 125, 183, 68, 47, 98, 101, 191, 2, 141, 212, 132, 104] =
   Inl (Thrown (Exn ''wrong secret key for the given ciphertext''))"
  by code_simp

text \<open>
  C6, as amended. With no email, a valid curve tag and a valid length, a string with
  the type tag \<^verbatim>\<open>pk\<close> is decoded with the table entry named by the curve followed by
  \<^verbatim>\<open>pk\<close>, with or without the marker \<^verbatim>\<open>e\<close> (line 144), and a string with the type tag
  \<^verbatim>\<open>sk\<close> with the entry named by the curve, then \<^verbatim>\<open>e\<close> if the marker is there, then
  \<^verbatim>\<open>sk\<close> (line 142). The result of that call is what is decrypted, when the marker is
  there, and then stored or expanded; an exception of that call is the exception of
  \<^verbatim>\<open>initialize\<close>.
\<close>

theorem C6_decode_prefix:
  assumes "\<not> truthy email"
    and "take 2 key \<in> set [''sp'', ''p2'', ''ed'']"
    and "length key \<in> set [54, 55, 88, 98]"
  shows
    "((if take 1 (drop 2 key) = ''e'' then take 2 (drop 3 key) else take 2 (drop 2 key)) = ''pk'' \<longrightarrow>
        initialize P k key passphrase email ready_fn =
          (case b58cdecode P key (prefix P (take 2 key @ ''pk'')) of
             Inl x \<Rightarrow>
               (Some (Thrown x), k\<lparr>curve := Some (take 2 key), f_isSecret := Some False\<rparr>)
           | Inr decoded \<Rightarrow>
               (case decrypt P passphrase (take 1 (drop 2 key) = ''e'') decoded of
                  Inl e \<Rightarrow>
                    (Some e, k\<lparr>curve := Some (take 2 key), f_isSecret := Some False\<rparr>)
                | Inr kb \<Rightarrow>
                    call ready_fn
                      (k\<lparr>curve := Some (take 2 key), f_isSecret := Some False,
                         f_publicKey := Some kb, f_secretKey := None\<rparr>))))
   \<and> ((if take 1 (drop 2 key) = ''e'' then take 2 (drop 3 key) else take 2 (drop 2 key)) = ''sk'' \<longrightarrow>
        initialize P k key passphrase email ready_fn =
          (case b58cdecode P key
                  (prefix P (take 2 key @ (if take 1 (drop 2 key) = ''e'' then ''e'' else []) @ ''sk'')) of
             Inl x \<Rightarrow>
               (Some (Thrown x), k\<lparr>curve := Some (take 2 key), f_isSecret := Some True\<rparr>)
           | Inr decoded \<Rightarrow>
               (case decrypt P passphrase (take 1 (drop 2 key) = ''e'') decoded of
                  Inl e \<Rightarrow>
                    (Some e, k\<lparr>curve := Some (take 2 key), f_isSecret := Some True\<rparr>)
                | Inr kb \<Rightarrow>
                    derive P (k\<lparr>curve := Some (take 2 key), f_isSecret := Some True\<rparr>)
                      kb ready_fn)))"
  by (intro conjI impI public_key_run secret_key_run assms)

theorem C6_decode_prefix_witness:
  "\<not> truthy None \<and>
   take 2 ''edepkuZWgrKbNiwAVZ42RnEiNwm2ipohxbPWXsxpofSLFDqcHkbY1tQ'' \<in> set [''sp'', ''p2'', ''ed''] \<and>
   length ''edepkuZWgrKbNiwAVZ42RnEiNwm2ipohxbPWXsxpofSLFDqcHkbY1tQ'' \<in> set [54, 55, 88, 98] \<and>
   (if take 1 (drop 2 ''edepkuZWgrKbNiwAVZ42RnEiNwm2ipohxbPWXsxpofSLFDqcHkbY1tQ'') = ''e''
    then take 2 (drop 3 ''edepkuZWgrKbNiwAVZ42RnEiNwm2ipohxbPWXsxpofSLFDqcHkbY1tQ'')
    else take 2 (drop 2 ''edepkuZWgrKbNiwAVZ42RnEiNwm2ipohxbPWXsxpofSLFDqcHkbY1tQ'')) = ''pk'' \<and>
   b58cdecode demo ''edepkuZWgrKbNiwAVZ42RnEiNwm2ipohxbPWXsxpofSLFDqcHkbY1tQ''
       (prefix demo ''edpk'') =
     Inr [123, 114, 17, 70, 74, 151, 154, 188, 162, 76, 201, 199, 84, 62, 69, 41, 253, 66,
          184, 79, 8, 125, 183, 68, 47, 98, 101, 191, 2, 141, 212, 132, 104] \<and>
   initialize demo fresh ''edepkuZWgrKbNiwAVZ42RnEiNwm2ipohxbPWXsxpofSLFDqcHkbY1tQ''
       (Some ''pw'') None (Some resolve) =
     (Some (Thrown (Exn ''wrong secret key for the given ciphertext'')),
      fresh\<lparr>curve := Some ''ed'', f_isSecret := Some False\<rparr>) \<and>
   (if take 1 (drop 2 doc_key) = ''e'' then take 2 (drop 3 doc_key)
    else take 2 (drop 2 doc_key)) = ''sk'' \<and>
   b58cdecode demo doc_key (prefix demo ''edsk'') = Inr doc_secret \<and>
   initialize demo fresh doc_key None None (Some resolve) = (None, doc_Key)"
proof -
  let ?K = "''edepkuZWgrKbNiwAVZ42RnEiNwm2ipohxbPWXsxpofSLFDqcHkbY1tQ''"
  have a: "\<not> truthy None" by (simp add: truthy_def)
  have b: "take 2 ?K \<in> set [''sp'', ''p2'', ''ed'']" by simp
  have c: "length ?K \<in> set [54, 55, 88, 98]" by simp
  have d: "(if take 1 (drop 2 ?K) = ''e'' then take 2 (drop 3 ?K) else take 2 (drop 2 ?K)) = ''pk''"
    by simp
  have p: "prefix demo ''edpk'' = Some [13, 15, 37, 217]"
    by (simp add: demo_def demo_prefix_def)
  have e: "b58cdecode demo ?K (prefix demo ''edpk'') =
     Inr [123, 114, 17, 70, 74, 151, 154, 188, 162, 76, 201, 199, 84, 62, 69, 41, 253, 66,
          184, 79, 8, 125, 183, 68, 47, 98, 101, 191, 2, 141, 212, 132, 104]"
    unfolding p by (rule encrypted_public_key_decoded(1))
  have f: "initialize demo fresh ?K (Some ''pw'') None (Some resolve) =
     (Some (Thrown (Exn ''wrong secret key for the given ciphertext'')),
      fresh\<lparr>curve := Some ''ed'', f_isSecret := Some False\<rparr>)"
    using C6_decode_prefix [where P = demo and k = fresh and key = ?K
            and passphrase = "Some ''pw''" and email = None and ready_fn = "Some resolve",
            OF a b c, THEN conjunct1, THEN mp, OF d]
    by (simp add: e encrypted_public_key_decrypt)
  have b2: "take 2 doc_key \<in> set [''sp'', ''p2'', ''ed'']" by (simp add: doc_key_def)
  have c2: "length doc_key \<in> set [54, 55, 88, 98]" by (simp add: doc_key_def)
  have g: "(if take 1 (drop 2 doc_key) = ''e'' then take 2 (drop 3 doc_key)
            else take 2 (drop 2 doc_key)) = ''sk''"
    by (simp add: doc_key_def)
  have n: "take 2 doc_key = ''ed''" and m: "(take 1 (drop 2 doc_key) = ''e'') = False"
    by (simp_all add: doc_key_def)
  have l: "length doc_secret = 64" by (simp add: doc_secret_def)
  have i: "initialize demo fresh doc_key None None (Some resolve) = (None, doc_Key)"
    unfolding C6_decode_prefix [where P = demo and k = fresh and key = doc_key
            and passphrase = None and email = None and ready_fn = "Some resolve",
            OF a b2 c2, THEN conjunct2, THEN mp, OF g] n m
    by (simp add: doc_key_decoded decrypt_def derive_def Let_def l call_def resolve_def
          doc_Key_def fresh_def)
  show ?thesis
    by (rule conjI [OF a conjI [OF b conjI [OF c conjI [OF d conjI [OF e conjI [OF f
          conjI [OF g conjI [OF doc_key_decoded i]]]]]]]])
qed

text \<open>
  C6 as stated fails. The table has no entry \<^verbatim>\<open>edepk\<close>, yet the decoding of the string
  with the marker \<^verbatim>\<open>e\<close> and the tag \<^verbatim>\<open>pk\<close> succeeds and \<^verbatim>\<open>initialize\<close> goes on to the
  decryption, which fails; giving the table an entry \<^verbatim>\<open>edepk\<close> changes nothing; taking
  the entry \<^verbatim>\<open>edpk\<close> away makes the decoder throw on an \<^verbatim>\<open>undefined\<close> prefix. So the
  prefix used is the plain \<^verbatim>\<open>edpk\<close>.
\<close>

theorem C6_counterexample:
  "take 1 (drop 2 ''edepkuZWgrKbNiwAVZ42RnEiNwm2ipohxbPWXsxpofSLFDqcHkbY1tQ'') = ''e'' \<and>
   take 2 (drop 3 ''edepkuZWgrKbNiwAVZ42RnEiNwm2ipohxbPWXsxpofSLFDqcHkbY1tQ'') = ''pk'' \<and>
   prefix demo ''edepk'' = None \<and>
   fst (initialize demo fresh
       ''edepkuZWgrKbNiwAVZ42RnEiNwm2ipohxbPWXsxpofSLFDqcHkbY1tQ'' (Some ''pw'') None (Some resolve)) =
     Some (Thrown (Exn ''wrong secret key for the given ciphertext'')) \<and>
   fst (initialize (demo\<lparr>prefix := (prefix demo)(''edepk'' \<mapsto> [1, 2, 3])\<rparr>) fresh
       ''edepkuZWgrKbNiwAVZ42RnEiNwm2ipohxbPWXsxpofSLFDqcHkbY1tQ'' (Some ''pw'') None (Some resolve)) =
     Some (Thrown (Exn ''wrong secret key for the given ciphertext'')) \<and>
   fst (initialize (demo\<lparr>prefix := (prefix demo)(''edpk'' := None)\<rparr>) fresh
       ''edepkuZWgrKbNiwAVZ42RnEiNwm2ipohxbPWXsxpofSLFDqcHkbY1tQ'' (Some ''pw'') None (Some resolve)) =
     Some (Thrown (Exn ''Cannot read property length of undefined''))"
proof -
  let ?K = "''edepkuZWgrKbNiwAVZ42RnEiNwm2ipohxbPWXsxpofSLFDqcHkbY1tQ''"
  have t: "\<not> truthy None" by (simp add: truthy_def)
  have a: "take 1 (drop 2 ?K) = ''e''" by simp
  have b: "take 2 (drop 3 ?K) = ''pk''" by simp
  have c: "prefix demo ''edepk'' = None" by (simp add: demo_def demo_prefix_def)
  have p: "prefix demo ''edpk'' = Some [13, 15, 37, 217]"
    by (simp add: demo_def demo_prefix_def)
  note r = public_key_run [where key = ?K and k = fresh and passphrase = "Some ''pw''"
             and email = None and ready_fn = "Some resolve", OF t]
  have d: "fst (initialize demo fresh ?K (Some ''pw'') None (Some resolve)) =
     Some (Thrown (Exn ''wrong secret key for the given ciphertext''))"
    using r [where P = demo]
    by (simp add: p encrypted_public_key_decoded encrypted_public_key_decrypt)
  have e: "fst (initialize (demo\<lparr>prefix := (prefix demo)(''edepk'' \<mapsto> [1, 2, 3])\<rparr>) fresh
       ?K (Some ''pw'') None (Some resolve)) =
     Some (Thrown (Exn ''wrong secret key for the given ciphertext''))"
    using r [where P = "demo\<lparr>prefix := (prefix demo)(''edepk'' \<mapsto> [1, 2, 3])\<rparr>"]
    by (simp add: p decrypt_prefix encrypted_public_key_decoded encrypted_public_key_decrypt)
  have f: "fst (initialize (demo\<lparr>prefix := (prefix demo)(''edpk'' := None)\<rparr>) fresh
       ?K (Some ''pw'') None (Some resolve)) =
     Some (Thrown (Exn ''Cannot read property length of undefined''))"
    using r [where P = "demo\<lparr>prefix := (prefix demo)(''edpk'' := None)\<rparr>"]
    by (simp add: encrypted_public_key_decoded)
  show ?thesis
    by (rule conjI [OF a conjI [OF b conjI [OF c conjI [OF d conjI [OF e f]]]]])
qed

end
